theory Spec2Isabelle
  imports Main "HOL-Library.Word"
begin

section \<open>Data model of \<open>ws_api.py\<close>\<close>

text \<open>
  The module \<open>ws_api.py\<close> orchestrates three collaborators that live outside it: the
  protocol codecs (\<open>MessageCoderV11\<close>, \<open>MessageCoderV21\<close>), the HTTP library
  (\<open>requests\<close>) and the clock (\<open>time\<close>, \<open>datetime\<close>). They are parameters of the model
  (the record \<open>env\<close> below); every call to one of them is appended, with its arguments
  and its result, to a trace, and each collaborator may answer depending on the trace so
  far. The methods of \<open>SaicApi\<close> take the object's fields and the trace (the record \<open>run\<close>)
  and return the outcome (an exception or a value) together with the updated \<open>run\<close>: a
  field written before an exception is raised stays written, as in Python.
\<close>

type_synonym bytes = "8 word list"
type_synonym timestamp = int
type_synonym cookie_jar = "(string \<times> string) list"

record header =
  protocol_version :: "int option"

record message_body =
  body_uid :: "string option"
  body_token :: "string option"
  event_id :: "string option"
  error_message :: "bytes option"

text \<open>
  \<open>MessageV11(header, body, application_data)\<close> and \<open>MessageV2(body, application_data)\<close>:
  a \<open>MessageV2\<close> is built without a header.
\<close>

record 'a message =
  msg_header :: "header option"
  body :: message_body
  application_data :: 'a

record mp_user_logging_in_req =
  password :: "string option"

record mp_user_logging_in_rsp =
  rsp_token :: "string option"
  rsp_token_expiration :: "timestamp option"

record rvc_req_param =
  param_id :: int
  param_value :: bytes

record ota_rvc_req =
  rvc_req_type :: "bytes option"
  rvc_params :: "rvc_req_param list"

record vin_info =
  vin :: string

type_synonym message_v11_req = "mp_user_logging_in_req message"
type_synonym message_v11_rsp = "mp_user_logging_in_rsp message"
type_synonym message_v2 = "ota_rvc_req option message"

text \<open>
  Modelled from the spec: the classes \<open>Header\<close>, \<open>MessageBodyV11\<close>, \<open>MessageBodyV2\<close>,
  \<open>MpUserLoggingInReq\<close>, \<open>MpUserLoggingInRsp\<close> and \<open>OtaRvcReq\<close> come from
  \<open>common_model\<close> and the \<open>data_model\<close> modules, which are not part of the sources at hand.
  The records above carry the fields that the spec's data model names and that \<open>ws_api.py\<close>
  reads or writes; a freshly constructed object has no field set and, for \<open>OtaRvcReq\<close>,
  an empty parameter list to which \<open>send_vehicle_control_command\<close> appends.
\<close>

definition Header_new :: header where
  "Header_new = \<lparr>protocol_version = None\<rparr>"

definition MessageBody_new :: message_body where
  "MessageBody_new = \<lparr>body_uid = None, body_token = None, event_id = None, error_message = None\<rparr>"

definition MpUserLoggingInReq_new :: mp_user_logging_in_req where
  "MpUserLoggingInReq_new = \<lparr>password = None\<rparr>"

definition MpUserLoggingInRsp_new :: mp_user_logging_in_rsp where
  "MpUserLoggingInRsp_new = \<lparr>rsp_token = None, rsp_token_expiration = None\<rparr>"

definition OtaRvcReq_new :: ota_rvc_req where
  "OtaRvcReq_new = \<lparr>rvc_req_type = None, rvc_params = []\<rparr>"

definition MessageV11 :: "header \<Rightarrow> message_body \<Rightarrow> 'a \<Rightarrow> 'a message" where
  "MessageV11 h b a = \<lparr>msg_header = Some h, body = b, application_data = a\<rparr>"

definition MessageV2 :: "message_body \<Rightarrow> 'a \<Rightarrow> 'a message" where
  "MessageV2 b a = \<lparr>msg_header = None, body = b, application_data = a\<rparr>"

subsection \<open>HTTP responses and exceptions\<close>

record response =
  status_code :: nat
  content :: bytes
  response_cookies :: cookie_jar

text \<open>
  The exceptions that can leave a method of \<open>ws_api.py\<close>: a failure inside
  \<open>requests.post\<close> or \<open>requests.get\<close>, \<open>raise_for_status()\<close> on a 4xx or 5xx status,
  \<open>bytes.decode()\<close> on bytes that are not UTF-8, the conversion of an \<open>int\<close> that is too large
  to a float, and the \<open>SystemExit\<close> of \<open>login\<close>.
\<close>

datatype fault =
    RequestException
  | HTTPError nat
  | UnicodeDecodeError
  | OverflowError
  | SystemExit string

subsection \<open>Telemetry values\<close>

text \<open>
  The values stored in the telemetry dictionary of \<open>update_abrp\<close>. A quotient such as
  \<open>speed / 10.0\<close> is a Python float; it is kept symbolically as \<open>PyQuot speed 10\<close>.
\<close>

datatype pyval =
    PyInt int
  | PyBool bool
  | PyQuot int int
  | PyFloat int int

subsection \<open>The trace of calls to the collaborators\<close>

datatype event =
    Initialize_message_v11 string "string option" string int int message_v11_req message_v11_req
  | Encode_request_v11 message_v11_req string
  | Decode_response_v11 string message_v11_rsp message_v11_rsp
  | Initialize_message_v21 "string option" "string option" string string int int message_v2 message_v2
  | Encode_request_v21 message_v2 string
  | Decode_response_v21 string message_v2 message_v2
  | Requests_post string string "(string \<times> string) list" "cookie_jar option" "response option"
  | Requests_get string "(string \<times> string) list" "response option"
  | Time_sleep nat
  | Print_ABRP bytes

text \<open>
  The collaborators. The codec follows the contract of the spec's section 6:
  \<open>initialize_message\<close> and \<open>decode_response\<close> mutate the message they are given (the
  model returns the mutated message), \<open>encode_request\<close> returns the payload.
  \<open>requests_post\<close> and \<open>requests_get\<close> answer \<open>None\<close> when the call itself raises.
  \<open>bytes_decode\<close> answers \<open>None\<close> when \<open>bytes.decode()\<close> raises.
\<close>

record env =
  initialize_message_v11 ::
    "event list \<Rightarrow> string \<Rightarrow> string option \<Rightarrow> string \<Rightarrow> int \<Rightarrow> int \<Rightarrow> message_v11_req \<Rightarrow> message_v11_req"
  encode_request_v11 :: "event list \<Rightarrow> message_v11_req \<Rightarrow> string"
  decode_response_v11 :: "event list \<Rightarrow> string \<Rightarrow> message_v11_rsp \<Rightarrow> message_v11_rsp"
  initialize_message_v21 ::
    "event list \<Rightarrow> string option \<Rightarrow> string option \<Rightarrow> string \<Rightarrow> string \<Rightarrow> int \<Rightarrow> int \<Rightarrow> message_v2 \<Rightarrow> message_v2"
  encode_request_v21 :: "event list \<Rightarrow> message_v2 \<Rightarrow> string"
  decode_response_v21 :: "event list \<Rightarrow> string \<Rightarrow> message_v2 \<Rightarrow> message_v2"
  requests_post ::
    "event list \<Rightarrow> string \<Rightarrow> string \<Rightarrow> (string \<times> string) list \<Rightarrow> cookie_jar option \<Rightarrow> response option"
  requests_get :: "event list \<Rightarrow> string \<Rightarrow> (string \<times> string) list \<Rightarrow> response option"
  urljoin :: "string \<Rightarrow> string \<Rightarrow> string"
  urlencode :: "(string \<times> pyval) list \<Rightarrow> string"
  bytes_decode :: "bytes \<Rightarrow> string option"
  datetime_now :: "event list \<Rightarrow> timestamp"

subsection \<open>The client object and a run\<close>

record saic_api =
  saic_uri :: string
  saic_user :: string
  saic_password :: string
  cookies :: "cookie_jar option"
  uid :: "string option"
  token :: "string option"
  token_expiration :: "timestamp option"

record run =
  self :: saic_api
  trace :: "event list"

definition SaicApi_init :: "string \<Rightarrow> string \<Rightarrow> string \<Rightarrow> saic_api" where
  "SaicApi_init uri user pw =
     \<lparr>saic_uri = uri, saic_user = user, saic_password = pw, cookies = None,
      uid = Some '''', token = Some '''', token_expiration = None\<rparr>"

definition UID_INIT :: string where
  "UID_INIT = ''0000000000000000000000000000000000000000000000000#''"

section \<open>Calls to the collaborators\<close>

definition log_event :: "event \<Rightarrow> run \<Rightarrow> run" where
  "log_event e st = st\<lparr>trace := trace st @ [e]\<rparr>"

definition call_initialize_message_v11 ::
  "env \<Rightarrow> string \<Rightarrow> string option \<Rightarrow> string \<Rightarrow> int \<Rightarrow> int \<Rightarrow> message_v11_req \<Rightarrow> run \<Rightarrow> message_v11_req \<times> run" where
  "call_initialize_message_v11 E u t app_id version message_id m st =
     (let m' = initialize_message_v11 E (trace st) u t app_id version message_id m
      in (m', log_event (Initialize_message_v11 u t app_id version message_id m m') st))"

definition call_encode_request_v11 :: "env \<Rightarrow> message_v11_req \<Rightarrow> run \<Rightarrow> string \<times> run" where
  "call_encode_request_v11 E m st =
     (let hex = encode_request_v11 E (trace st) m
      in (hex, log_event (Encode_request_v11 m hex) st))"

definition call_decode_response_v11 :: "env \<Rightarrow> string \<Rightarrow> message_v11_rsp \<Rightarrow> run \<Rightarrow> message_v11_rsp \<times> run" where
  "call_decode_response_v11 E hex m st =
     (let m' = decode_response_v11 E (trace st) hex m
      in (m', log_event (Decode_response_v11 hex m m') st))"

definition call_initialize_message_v21 ::
  "env \<Rightarrow> string option \<Rightarrow> string option \<Rightarrow> string \<Rightarrow> string \<Rightarrow> int \<Rightarrow> int \<Rightarrow> message_v2 \<Rightarrow> run \<Rightarrow> message_v2 \<times> run" where
  "call_initialize_message_v21 E u t v app_id version message_id m st =
     (let m' = initialize_message_v21 E (trace st) u t v app_id version message_id m
      in (m', log_event (Initialize_message_v21 u t v app_id version message_id m m') st))"

definition call_encode_request_v21 :: "env \<Rightarrow> message_v2 \<Rightarrow> run \<Rightarrow> string \<times> run" where
  "call_encode_request_v21 E m st =
     (let hex = encode_request_v21 E (trace st) m
      in (hex, log_event (Encode_request_v21 m hex) st))"

definition call_decode_response_v21 :: "env \<Rightarrow> string \<Rightarrow> message_v2 \<Rightarrow> run \<Rightarrow> message_v2 \<times> run" where
  "call_decode_response_v21 E hex m st =
     (let m' = decode_response_v21 E (trace st) hex m
      in (m', log_event (Decode_response_v21 hex m m') st))"

definition time_sleep :: "nat \<Rightarrow> run \<Rightarrow> run" where
  "time_sleep secs st = log_event (Time_sleep secs) st"

section \<open>Transport\<close>

fun str_nat :: "nat \<Rightarrow> string" where
  "str_nat n = (if n < 10 then [char_of (48 + n)] else str_nat (n div 10) @ [char_of (48 + n mod 10)])"

declare str_nat.simps [simp del]

definition raise_for_status :: "response \<Rightarrow> fault option" where
  "raise_for_status r =
     (if 400 \<le> status_code r \<and> status_code r < 600 then Some (HTTPError (status_code r)) else None)"

text \<open>The \<open>headers\<close> dictionary of \<open>send_request\<close>.\<close>

definition request_headers :: "string \<Rightarrow> (string \<times> string) list" where
  "request_headers hex_message =
     [(''Accept'', ''*/*''),
      (''Content-Type'', ''text/html''),
      (''Accept-Encoding'', ''gzip, deflate, br''),
      (''User-Agent'', ''MG iSMART/1.1.1 (iPhone; iOS 16.3; Scale/3.00)''),
      (''Accept-Language'', ''de-DE;q=1, en-DE;q=0.9, lu-DE;q=0.8, fr-DE;q=0.7''),
      (''Content-Length'', str_nat (length hex_message))]"

definition send_request :: "env \<Rightarrow> string \<Rightarrow> string \<Rightarrow> run \<Rightarrow> (fault + string) \<times> run" where
  "send_request E hex_message endpoint st =
     (let headers = request_headers hex_message;
          r = requests_post E (trace st) endpoint hex_message headers (cookies (self st));
          st1 = log_event (Requests_post endpoint hex_message headers (cookies (self st)) r) st
      in case r of
           None \<Rightarrow> (Inl RequestException, st1)
         | Some response \<Rightarrow>
             (case raise_for_status response of
                Some f \<Rightarrow> (Inl f, st1)
              | None \<Rightarrow>
                  (let st2 = st1\<lparr>self := (self st1)\<lparr>cookies := Some (response_cookies response)\<rparr>\<rparr>
                   in case bytes_decode E (content response) of
                        None \<Rightarrow> (Inl UnicodeDecodeError, st2)
                      | Some s \<Rightarrow> (Inr s, st2))))"

section \<open>Session manager\<close>

text \<open>
  \<open>publish_json_value\<close> and \<open>publish_raw_value\<close> only call \<open>logging.debug\<close> while the
  module sets the level to \<open>INFO\<close>: they write nothing and change nothing, and are left out.
\<close>

definition login :: "env \<Rightarrow> run \<Rightarrow> (fault + message_v11_rsp) \<times> run" where
  "login E st =
     (let application_data' = MpUserLoggingInReq_new\<lparr>password := Some (saic_password (self st))\<rparr>;
          header = Header_new\<lparr>protocol_version := Some 17\<rparr>;
          login_request_message = MessageV11 header MessageBody_new application_data';
          application_id = ''501'';
          application_data_protocol_version = 513;
          (login_request_message, st1) =
             call_initialize_message_v11 E
               (drop (length (saic_user (self st))) UID_INIT @ saic_user (self st))
               None application_id application_data_protocol_version 1 login_request_message st;
          (login_request_hex, st2) = call_encode_request_v11 E login_request_message st1
      in case send_request E login_request_hex (urljoin E (saic_uri (self st2)) ''/TAP.Web/ota.mp'') st2 of
           (Inl f, st3) \<Rightarrow> (Inl f, st3)
         | (Inr login_response_hex, st3) \<Rightarrow>
             (let login_response_message =
                    \<lparr>msg_header = msg_header login_request_message, body = MessageBody_new,
                     application_data = MpUserLoggingInRsp_new\<rparr>;
                  (login_response_message, st4) =
                     call_decode_response_v11 E login_response_hex login_response_message st3;
                  logging_in_rsp = application_data login_response_message
              in case error_message (body login_response_message) of
                   Some err \<Rightarrow>
                     (case bytes_decode E err of
                        None \<Rightarrow> (Inl UnicodeDecodeError, st4)
                      | Some s \<Rightarrow> (Inl (SystemExit s), st4))
                 | None \<Rightarrow>
                     (let st5 = st4\<lparr>self := (self st4)\<lparr>uid := body_uid (body login_response_message)\<rparr>\<rparr>;
                          st6 = st5\<lparr>self := (self st5)\<lparr>token := rsp_token logging_in_rsp\<rparr>\<rparr>;
                          st7 = (case rsp_token_expiration logging_in_rsp of
                                   None \<Rightarrow> st6
                                 | Some e \<Rightarrow> st6\<lparr>self := (self st6)\<lparr>token_expiration := Some e\<rparr>\<rparr>)
                      in (Inr login_response_message, st7))))"

definition get_token :: "env \<Rightarrow> run \<Rightarrow> (fault + string option) \<times> run" where
  "get_token E st =
     (case token_expiration (self st) of
        None \<Rightarrow> (Inr (token (self st)), st)
      | Some expiration \<Rightarrow>
          if expiration < datetime_now E (trace st) then
            (case login E st of
               (Inl f, st1) \<Rightarrow> (Inl f, st1)
             | (Inr _, st1) \<Rightarrow> (Inr (token (self st1)), st1))
          else (Inr (token (self st)), st))"

section \<open>Command dispatcher: control commands\<close>

text \<open>
  \<open>if event_id is not None: message.body.event_id = event_id\<close>, the step that every
  dispatcher method performs between \<open>initialize_message\<close> and \<open>encode_request\<close>.
\<close>

definition set_event_id :: "string option \<Rightarrow> 'a message \<Rightarrow> 'a message" where
  "set_event_id ev m =
     (case ev of None \<Rightarrow> m | Some e \<Rightarrow> m\<lparr>body := (body m)\<lparr>event_id := Some e\<rparr>\<rparr>)"

text \<open>
  Python evaluates the arguments of \<open>initialize_message(self.uid, self.get_token(), ...)\<close>
  from left to right: \<open>self.uid\<close> is read before \<open>get_token\<close> may log in again.
\<close>

definition send_vehicle_control_command ::
  "env \<Rightarrow> vin_info \<Rightarrow> bytes \<Rightarrow> rvc_req_param list \<Rightarrow> string option \<Rightarrow> run \<Rightarrow> (fault + message_v2) \<times> run" where
  "send_vehicle_control_command E vi req_type params ev st =
     (let vehicle_control_req = OtaRvcReq_new\<lparr>rvc_req_type := Some req_type\<rparr>;
          vehicle_control_req =
            foldl (\<lambda>req p. req\<lparr>rvc_params := rvc_params req @ [p]\<rparr>) vehicle_control_req params;
          vehicle_control_cmd_req_msg = MessageV2 MessageBody_new (Some vehicle_control_req);
          application_id = ''510'';
          application_data_protocol_version = 25857;
          uid_arg = uid (self st)
      in case get_token E st of
           (Inl f, st1) \<Rightarrow> (Inl f, st1)
         | (Inr token_arg, st1) \<Rightarrow>
             (let (vehicle_control_cmd_req_msg, st2) =
                     call_initialize_message_v21 E uid_arg token_arg (vin vi) application_id
                       application_data_protocol_version 1 vehicle_control_cmd_req_msg st1;
                  vehicle_control_cmd_req_msg = set_event_id ev vehicle_control_cmd_req_msg;
                  (vehicle_control_cmd_req_msg_hex, st3) =
                     call_encode_request_v21 E vehicle_control_cmd_req_msg st2
              in case send_request E vehicle_control_cmd_req_msg_hex
                        (urljoin E (saic_uri (self st3)) ''/TAP.Web/ota.mpv21'') st3 of
                   (Inl f, st4) \<Rightarrow> (Inl f, st4)
                 | (Inr vehicle_control_cmd_rsp_msg_hex, st4) \<Rightarrow>
                     (let vehicle_control_cmd_rsp_msg = MessageV2 MessageBody_new None;
                          (vehicle_control_cmd_rsp_msg, st5) =
                             call_decode_response_v21 E vehicle_control_cmd_rsp_msg_hex
                               vehicle_control_cmd_rsp_msg st4
                      in (Inr vehicle_control_cmd_rsp_msg, st5))))"

section \<open>Retry coordinator\<close>

text \<open>
  The \<open>while\<close> loop of \<open>send_vehicle_ctrl_cmd_with_retry\<close>; its arguments are the loop
  variables \<open>vehicle_control_cmd_rsp_msg\<close> and \<open>retry\<close>, its value is the final
  \<open>vehicle_control_cmd_rsp_msg\<close>. \<open>time.sleep(float(2))\<close> is logged as \<open>Time_sleep 2\<close>.
\<close>

function retry_while ::
  "env \<Rightarrow> vin_info \<Rightarrow> bytes \<Rightarrow> rvc_req_param list \<Rightarrow> message_v2 \<Rightarrow> nat \<Rightarrow> run \<Rightarrow> (fault + message_v2) \<times> run" where
  "retry_while E vi req_type params rsp_msg retry st =
     (if error_message (body rsp_msg) \<noteq> None \<and> retry < 3 then
        (let st1 = time_sleep 2 st;
             ev = event_id (body rsp_msg)
         in case send_vehicle_control_command E vi req_type params ev st1 of
              (Inl f, st2) \<Rightarrow> (Inl f, st2)
            | (Inr rsp_msg', st2) \<Rightarrow> retry_while E vi req_type params rsp_msg' (retry + 1) st2)
      else (Inr rsp_msg, st))"
  by pat_completeness auto
termination
  by (relation "measure (\<lambda>(E, vi, req_type, params, rsp_msg, retry, st). 3 - retry)") auto

declare retry_while.simps [simp del]

text \<open>
  The body of \<open>send_vehicle_ctrl_cmd_with_retry\<close> up to the end of the loop, with the
  local variable \<open>vehicle_control_cmd_rsp_msg\<close> as its value.
\<close>

definition send_vehicle_ctrl_cmd_with_retry_locals ::
  "env \<Rightarrow> vin_info \<Rightarrow> bytes \<Rightarrow> rvc_req_param list \<Rightarrow> run \<Rightarrow> (fault + message_v2) \<times> run" where
  "send_vehicle_ctrl_cmd_with_retry_locals E vi req_type params st =
     (case send_vehicle_control_command E vi req_type params None st of
        (Inl f, st1) \<Rightarrow> (Inl f, st1)
      | (Inr vehicle_control_cmd_rsp_msg, st1) \<Rightarrow>
          retry_while E vi req_type params vehicle_control_cmd_rsp_msg 1 st1)"

text \<open>
  The method itself: it has no \<open>return\<close> statement, so what the caller receives is
  Python's \<open>None\<close>, here \<open>None\<close> of \<open>message_v2 option\<close>.
\<close>

definition send_vehicle_ctrl_cmd_with_retry ::
  "env \<Rightarrow> vin_info \<Rightarrow> bytes \<Rightarrow> rvc_req_param list \<Rightarrow> run \<Rightarrow> (fault + message_v2 option) \<times> run" where
  "send_vehicle_ctrl_cmd_with_retry E vi req_type params st =
     (case send_vehicle_ctrl_cmd_with_retry_locals E vi req_type params st of
        (Inl f, st1) \<Rightarrow> (Inl f, st1)
      | (Inr vehicle_control_cmd_rsp_msg, st1) \<Rightarrow> (Inr None, st1))"

section \<open>Actuation commands\<close>

definition discard :: "(fault + 'a) \<times> run \<Rightarrow> (fault + unit) \<times> run" where
  "discard r = (case r of (Inl f, st) \<Rightarrow> (Inl f, st) | (Inr _, st) \<Rightarrow> (Inr (), st))"



definition start_rear_window_heat :: "env \<Rightarrow> vin_info \<Rightarrow> run \<Rightarrow> (fault + unit) \<times> run" where
  "start_rear_window_heat E vi st =
     (let rvc_params = [];
          param1 = \<lparr>param_id = 23, param_value = [0x01]\<rparr>;
          rvc_params = rvc_params @ [param1];
          param2 = \<lparr>param_id = 255, param_value = [0x00]\<rparr>;
          rvc_params = rvc_params @ [param2]
      in discard (send_vehicle_ctrl_cmd_with_retry E vi [0x20] rvc_params st))"

definition stop_rear_window_heat :: "env \<Rightarrow> vin_info \<Rightarrow> run \<Rightarrow> (fault + unit) \<times> run" where
  "stop_rear_window_heat E vi st =
     (let rvc_params = [];
          param1 = \<lparr>param_id = 23, param_value = [0x00]\<rparr>;
          rvc_params = rvc_params @ [param1];
          param2 = \<lparr>param_id = 255, param_value = [0x00]\<rparr>;
          rvc_params = rvc_params @ [param2]
      in discard (send_vehicle_ctrl_cmd_with_retry E vi [0x20] rvc_params st))"

section \<open>Telemetry forwarder\<close>

text \<open>
  Modelled from the spec: \<open>OtaRvmVehicleStatusResp25857\<close> and \<open>OtaChrgMangDataResp\<close> come
  from the \<open>data_model\<close> modules, which are not part of the sources at hand. The records
  carry what \<open>update_abrp\<close> reads: a getter or method of the source is the field of the same
  name, its value being what the call returns; \<open>get_power()\<close>, \<open>get_voltage()\<close> and
  \<open>get_current()\<close> return floats, kept as \<open>PyFloat m e\<close>.
\<close>

record rvs_position =
  latitude :: int
  longitude :: int
  altitude :: int

record rvs_way_point =
  get_position :: "rvs_position option"
  heading :: int
  speed :: int

record gps_position =
  get_way_point :: "rvs_way_point option"
  timestamp_4_short_seconds :: int

record basic_vehicle_status =
  exterior_temperature :: int
  mileage :: int
  fuel_range_elec :: int

record vehicle_status_resp =
  get_gps_position :: "gps_position option"
  get_basic_vehicle_status :: basic_vehicle_status
  is_charging :: bool
  is_parked :: bool

record chrg_mang_data_resp =
  bmsPackSOCDsp :: int
  get_power :: pyval
  get_voltage :: pyval
  get_current :: pyval

record abrp_api =
  abrp_api_key :: "string option"
  abrp_user_token :: "string option"

text \<open>
  \<open>x / 10.0\<close> with an \<open>int\<close> \<open>x\<close> first converts \<open>x\<close> to a float. The conversion rounds to
  the nearest float and raises \<open>OverflowError\<close> when the result would lie beyond the largest
  one, that is when \<open>|x| \<ge> 2^1024 - 2^970\<close>; otherwise the quotient is a float, kept as
  \<open>PyQuot x 10\<close>.
\<close>

definition fits_float :: "int \<Rightarrow> bool" where
  "fits_float x \<longleftrightarrow> \<bar>x\<bar> < 2 ^ 1024 - 2 ^ 970"

definition py_truediv :: "int \<Rightarrow> int \<Rightarrow> fault + pyval" where
  "py_truediv x d = (if fits_float x then Inr (PyQuot x d) else Inl OverflowError)"

text \<open>
  The dictionary \<open>data\<close> of \<open>update_abrp\<close>, in insertion order. The quotients of the
  dictionary display are evaluated from top to bottom, those of \<open>odometer\<close> and
  \<open>est_battery_range\<close> only when the value is positive; the first that overflows raises.
\<close>

definition tlm_data :: "vehicle_status_resp \<Rightarrow> gps_position \<Rightarrow> rvs_way_point \<Rightarrow> rvs_position \<Rightarrow> chrg_mang_data_resp \<Rightarrow> fault + (string \<times> pyval) list" where
  "tlm_data vehicle_status gps wp pos charge_status =
     (case py_truediv (bmsPackSOCDsp charge_status) 10 of Inl f \<Rightarrow> Inl f | Inr soc \<Rightarrow>
      case py_truediv (speed wp) 10 of Inl f \<Rightarrow> Inl f | Inr speed' \<Rightarrow>
      case py_truediv (latitude pos) 1000000 of Inl f \<Rightarrow> Inl f | Inr lat \<Rightarrow>
      case py_truediv (longitude pos) 1000000 of Inl f \<Rightarrow> Inl f | Inr lon \<Rightarrow>
        (let data =
               [(''utc'', PyInt (timestamp_4_short_seconds gps)),
                (''soc'', soc),
                (''power'', get_power charge_status),
                (''speed'', speed'),
                (''lat'', lat),
                (''lon'', lon),
                (''is_charging'', PyBool (is_charging vehicle_status)),
                (''is_parked'', PyBool (is_parked vehicle_status)),
                (''heading'', PyInt (heading wp)),
                (''elevation'', PyInt (altitude pos)),
                (''voltage'', get_voltage charge_status),
                (''current'', get_current charge_status)];
             exterior_temperature' = exterior_temperature (get_basic_vehicle_status vehicle_status);
             data = (if exterior_temperature' \<noteq> - 128
                     then data @ [(''ext_temp'', PyInt exterior_temperature')] else data);
             mileage' = mileage (get_basic_vehicle_status vehicle_status);
             range_elec = fuel_range_elec (get_basic_vehicle_status vehicle_status)
         in case (if mileage' > 0
                  then (case py_truediv mileage' 10 of
                          Inl f \<Rightarrow> Inl f | Inr odometer \<Rightarrow> Inr (data @ [(''odometer'', odometer)]))
                  else Inr data) of
              Inl f \<Rightarrow> Inl f
            | Inr data \<Rightarrow>
                (if range_elec > 0
                 then (case py_truediv range_elec 10 of
                         Inl f \<Rightarrow> Inl f
                       | Inr est_battery_range \<Rightarrow> Inr (data @ [(''est_battery_range'', est_battery_range)]))
                 else Inr data)))"

text \<open>
  \<open>AbrpApi.update_abrp\<close>. The object has no mutable field, so a run is the trace alone.
  The conjunction of the source's \<open>if\<close> is evaluated from left to right and stops at the
  first conjunct that fails. An \<open>OverflowError\<close> while \<open>data\<close> is built leaves the method
  before \<open>requests.get\<close> is called.
\<close>

definition update_abrp ::
  "env \<Rightarrow> abrp_api \<Rightarrow> vehicle_status_resp option \<Rightarrow> chrg_mang_data_resp option \<Rightarrow> event list
     \<Rightarrow> (fault + unit) \<times> event list" where
  "update_abrp E api vehicle_status charge_status tr =
     (case abrp_api_key api of None \<Rightarrow> (Inr (), tr) | Some api_key \<Rightarrow>
      case abrp_user_token api of None \<Rightarrow> (Inr (), tr) | Some user_token \<Rightarrow>
      case vehicle_status of None \<Rightarrow> (Inr (), tr) | Some vs \<Rightarrow>
      case get_gps_position vs of None \<Rightarrow> (Inr (), tr) | Some gps \<Rightarrow>
      case get_way_point gps of None \<Rightarrow> (Inr (), tr) | Some wp \<Rightarrow>
      case get_position wp of None \<Rightarrow> (Inr (), tr) | Some pos \<Rightarrow>
      if \<not> (latitude pos > 0 \<and> longitude pos > 0) then (Inr (), tr) else
      case charge_status of None \<Rightarrow> (Inr (), tr) | Some cs \<Rightarrow>
      case tlm_data vs gps wp pos cs of Inl f \<Rightarrow> (Inl f, tr) | Inr data \<Rightarrow>
        (let tlm_send_url = ''https://api.iternio.com/1/tlm/send'';
             params = [(''api_key'', api_key), (''token'', user_token), (''tlm'', urlencode E data)];
             tlm_response = requests_get E tr tlm_send_url params;
             tr1 = tr @ [Requests_get tlm_send_url params tlm_response]
         in case tlm_response of
              None \<Rightarrow> (Inl RequestException, tr1)
            | Some r \<Rightarrow>
                (case raise_for_status r of
                   Some f \<Rightarrow> (Inl f, tr1)
                 | None \<Rightarrow> (Inr (), tr1 @ [Print_ABRP (content r)]))))"

section \<open>Observations on traces\<close>

text \<open>The events that a run has added to the trace.\<close>

definition new_events :: "run \<Rightarrow> run \<Rightarrow> event list" where
  "new_events st st' = drop (length (trace st)) (trace st')"

text \<open>
  A call of \<open>login\<close> starts by handing the login identifier to
  \<open>initialize_message\<close> with application id \<open>501\<close>: such an event is a login request, and
  it carries the identifier that \<open>login\<close> submits.
\<close>

fun login_request_of :: "event \<Rightarrow> string option" where
  "login_request_of (Initialize_message_v11 u t app_id version message_id m m') =
     (if app_id = ''501'' then Some u else None)"
| "login_request_of _ = None"

definition login_requests :: "event list \<Rightarrow> string list" where
  "login_requests tr = List.map_filter login_request_of tr"

text \<open>The login responses as decoded by the V1.1 codec.\<close>

fun login_response_of :: "event \<Rightarrow> message_v11_rsp option" where
  "login_response_of (Decode_response_v11 hex m m') = Some m'"
| "login_response_of _ = None"

definition login_responses :: "event list \<Rightarrow> message_v11_rsp list" where
  "login_responses tr = List.map_filter login_response_of tr"

text \<open>
  Control commands: the request built by the dispatcher and handed to
  \<open>initialize_message\<close>, the message as stamped by \<open>initialize_message\<close>, the outgoing
  message handed to \<open>encode_request\<close>, and the response returned by \<open>decode_response\<close>.
\<close>

fun ctrl_request_of :: "event \<Rightarrow> message_v2 option" where
  "ctrl_request_of (Initialize_message_v21 u t v app_id version message_id m m') = Some m"
| "ctrl_request_of _ = None"

fun ctrl_stamped_of :: "event \<Rightarrow> message_v2 option" where
  "ctrl_stamped_of (Initialize_message_v21 u t v app_id version message_id m m') = Some m'"
| "ctrl_stamped_of _ = None"

fun ctrl_outgoing_of :: "event \<Rightarrow> message_v2 option" where
  "ctrl_outgoing_of (Encode_request_v21 m hex) = Some m"
| "ctrl_outgoing_of _ = None"

fun ctrl_response_of :: "event \<Rightarrow> message_v2 option" where
  "ctrl_response_of (Decode_response_v21 hex m m') = Some m'"
| "ctrl_response_of _ = None"

definition ctrl_requests :: "event list \<Rightarrow> message_v2 list" where
  "ctrl_requests tr = List.map_filter ctrl_request_of tr"

definition ctrl_stamped :: "event list \<Rightarrow> message_v2 list" where
  "ctrl_stamped tr = List.map_filter ctrl_stamped_of tr"

definition ctrl_outgoing :: "event list \<Rightarrow> message_v2 list" where
  "ctrl_outgoing tr = List.map_filter ctrl_outgoing_of tr"

definition ctrl_responses :: "event list \<Rightarrow> message_v2 list" where
  "ctrl_responses tr = List.map_filter ctrl_response_of tr"

text \<open>
  The pace of a control command: its attempts (a message handed to \<open>encode_request\<close>),
  its answers (a decoded response, with whether it carries an error payload) and its
  delays (with their length in seconds), in the order in which they happen.
\<close>

datatype pace = Attempt | Answer bool | Delay nat

fun pace_of :: "event \<Rightarrow> pace option" where
  "pace_of (Encode_request_v21 m hex) = Some Attempt"
| "pace_of (Decode_response_v21 hex m m') = Some (Answer (error_message (body m') \<noteq> None))"
| "pace_of (Time_sleep secs) = Some (Delay secs)"
| "pace_of _ = None"

definition pacing :: "event list \<Rightarrow> pace list" where
  "pacing tr = List.map_filter pace_of tr"

text \<open>Network calls: every \<open>requests.post\<close> and \<open>requests.get\<close>.\<close>

fun is_network_call :: "event \<Rightarrow> bool" where
  "is_network_call (Requests_post url payload headers jar r) = True"
| "is_network_call (Requests_get url params r) = True"
| "is_network_call _ = False"

definition network_calls :: "event list \<Rightarrow> nat" where
  "network_calls tr = length (filter is_network_call tr)"

text \<open>The events of the V2.1 codec and the delays: what a control command adds to the
  trace beyond a possible re-login.\<close>

fun is_ctrl_event :: "event \<Rightarrow> bool" where
  "is_ctrl_event (Initialize_message_v21 u t v app_id version message_id m m') = True"
| "is_ctrl_event (Encode_request_v21 m hex) = True"
| "is_ctrl_event (Decode_response_v21 hex m m') = True"
| "is_ctrl_event (Time_sleep secs) = True"
| "is_ctrl_event _ = False"

definition ctrl_events :: "event list \<Rightarrow> event list" where
  "ctrl_events tr = filter is_ctrl_event tr"

text \<open>
  The conditions of \<open>update_abrp\<close> on the vehicle status: the response, its GPS position,
  the way point and the position are present, and latitude and longitude are positive.
\<close>

definition valid_fix :: "vehicle_status_resp option \<Rightarrow> bool" where
  "valid_fix vehicle_status =
     (case vehicle_status of None \<Rightarrow> False | Some vs \<Rightarrow>
      case get_gps_position vs of None \<Rightarrow> False | Some gps \<Rightarrow>
      case get_way_point gps of None \<Rightarrow> False | Some wp \<Rightarrow>
      case get_position wp of None \<Rightarrow> False | Some pos \<Rightarrow>
      latitude pos > 0 \<and> longitude pos > 0)"

text \<open>
  The integers that \<open>update_abrp\<close> divides by a float while it builds the payload (state of
  charge, speed, latitude, longitude, and mileage and electric range when positive) can all
  be converted to a float.
\<close>

definition quotients_fit :: "vehicle_status_resp \<Rightarrow> rvs_way_point \<Rightarrow> rvs_position \<Rightarrow> chrg_mang_data_resp \<Rightarrow> bool" where
  "quotients_fit vs wp pos cs \<longleftrightarrow>
     fits_float (bmsPackSOCDsp cs) \<and> fits_float (speed wp) \<and>
     fits_float (latitude pos) \<and> fits_float (longitude pos) \<and>
     (if mileage (get_basic_vehicle_status vs) > 0
      then fits_float (mileage (get_basic_vehicle_status vs)) else True) \<and>
     (if fuel_range_elec (get_basic_vehicle_status vs) > 0
      then fits_float (fuel_range_elec (get_basic_vehicle_status vs)) else True)"

definition payload_fits :: "vehicle_status_resp option \<Rightarrow> chrg_mang_data_resp option \<Rightarrow> bool" where
  "payload_fits vehicle_status charge_status =
     (case vehicle_status of None \<Rightarrow> False | Some vs \<Rightarrow>
      case get_gps_position vs of None \<Rightarrow> False | Some gps \<Rightarrow>
      case get_way_point gps of None \<Rightarrow> False | Some wp \<Rightarrow>
      case get_position wp of None \<Rightarrow> False | Some pos \<Rightarrow>
      case charge_status of None \<Rightarrow> False | Some cs \<Rightarrow> quotients_fit vs wp pos cs)"

text \<open>\<open>get_token\<close> logs in again when the stored expiration is set and lies in the past.\<close>

definition token_expired :: "env \<Rightarrow> run \<Rightarrow> bool" where
  "token_expired E st =
     (case token_expiration (self st) of
        None \<Rightarrow> False
      | Some expiration \<Rightarrow> expiration < datetime_now E (trace st))"

section \<open>Sample collaborators and inputs\<close>

text \<open>
  A server that answers every login with \<open>login_rsp\<close>, answers the first \<open>failures\<close>
  control commands with an error payload and the later ones without, and a clock that
  stands at \<open>now\<close>.
\<close>

definition sample_answer :: "bool \<Rightarrow> message_v2" where
  "sample_answer failed =
     MessageV2 (MessageBody_new\<lparr>event_id := Some ''e7'', error_message := (if failed then Some [1] else None)\<rparr>) None"

definition sample_env :: "message_v11_rsp \<Rightarrow> nat \<Rightarrow> timestamp \<Rightarrow> env" where
  "sample_env login_rsp failures now =
     \<lparr>initialize_message_v11 =
        (\<lambda>tr u t app_id version message_id m. m\<lparr>body := (body m)\<lparr>body_uid := Some u, body_token := t\<rparr>\<rparr>),
      encode_request_v11 = (\<lambda>tr m. ''11''),
      decode_response_v11 = (\<lambda>tr hex m. login_rsp),
      initialize_message_v21 =
        (\<lambda>tr u t v app_id version message_id m.
           m\<lparr>body := (body m)\<lparr>body_uid := u, body_token := t, event_id := Some ''0''\<rparr>\<rparr>),
      encode_request_v21 = (\<lambda>tr m. ''21''),
      decode_response_v21 = (\<lambda>tr hex m. sample_answer (length (ctrl_responses tr) < failures)),
      requests_post =
        (\<lambda>tr url payload headers jar. Some \<lparr>status_code = 200, content = [], response_cookies = []\<rparr>),
      requests_get =
        (\<lambda>tr url params. Some \<lparr>status_code = 200, content = [], response_cookies = []\<rparr>),
      urljoin = (\<lambda>base path. base @ path),
      urlencode = (\<lambda>data. ''tlm''),
      bytes_decode = (\<lambda>bs. Some (map (\<lambda>b. CHR ''?'') bs)),
      datetime_now = (\<lambda>tr. now)\<rparr>"

definition login_ok :: "timestamp option \<Rightarrow> message_v11_rsp" where
  "login_ok expiration =
     \<lparr>msg_header = None,
      body = \<lparr>body_uid = Some ''u1'', body_token = None, event_id = None, error_message = None\<rparr>,
      application_data = \<lparr>rsp_token = Some ''t1'', rsp_token_expiration = expiration\<rparr>\<rparr>"

definition login_refused :: message_v11_rsp where
  "login_refused =
     \<lparr>msg_header = None,
      body = \<lparr>body_uid = Some ''u1'', body_token = None, event_id = None, error_message = Some [110, 111]\<rparr>,
      application_data = \<lparr>rsp_token = Some ''t1'', rsp_token_expiration = Some 900\<rparr>\<rparr>"

definition sample_run :: "string \<Rightarrow> timestamp option \<Rightarrow> run" where
  "sample_run user expiration =
     \<lparr>self = (SaicApi_init ''https://h'' user ''pw'')\<lparr>token := Some ''t0'', token_expiration := expiration\<rparr>,
      trace = []\<rparr>"

definition sample_vin :: vin_info where
  "sample_vin = \<lparr>vin = ''V1''\<rparr>"

definition sample_vehicle_status :: vehicle_status_resp where
  "sample_vehicle_status =
     \<lparr>get_gps_position = Some
        \<lparr>get_way_point = Some
           \<lparr>get_position = Some \<lparr>latitude = 48100000, longitude = 11500000, altitude = 500\<rparr>,
            heading = 90, speed = 0\<rparr>,
         timestamp_4_short_seconds = 1700000000\<rparr>,
      get_basic_vehicle_status = \<lparr>exterior_temperature = 12, mileage = 123450, fuel_range_elec = 2500\<rparr>,
      is_charging = False, is_parked = True\<rparr>"

definition sample_charge_status :: chrg_mang_data_resp where
  "sample_charge_status =
     \<lparr>bmsPackSOCDsp = 800, get_power = PyFloat 0 0, get_voltage = PyFloat 400 0, get_current = PyFloat 0 0\<rparr>"

text \<open>
  What a run of control commands leaves in the trace. \<open>ctrl_req\<close> is the request that
  \<open>send_vehicle_control_command\<close> builds; \<open>attempt_obs\<close> describes one attempt with the
  responses \<open>rs\<close> it received (none or one); \<open>series_obs\<close> describes consecutive attempts,
  the first of which gets the event id \<open>ev\<close> attached; \<open>paces n e p f\<close> says that \<open>p\<close> is a
  possible pace of the loop when \<open>n\<close> attempts remain and the last answer had an error
  payload iff \<open>e\<close>, ending in an exception iff \<open>f\<close>.
\<close>

definition ctrl_req :: "bytes \<Rightarrow> rvc_req_param list \<Rightarrow> message_v2" where
  "ctrl_req t ps = MessageV2 MessageBody_new (Some \<lparr>rvc_req_type = Some t, rvc_params = ps\<rparr>)"

definition attempt_obs :: "bytes \<Rightarrow> rvc_req_param list \<Rightarrow> string option \<Rightarrow> message_v2 list \<Rightarrow> event list \<Rightarrow> bool" where
  "attempt_obs t ps ev rs new \<longleftrightarrow>
     ctrl_requests new = [ctrl_req t ps] \<and>
     (\<exists>m'. ctrl_stamped new = [m'] \<and> ctrl_outgoing new = [set_event_id ev m']) \<and>
     ctrl_responses new = rs \<and>
     pacing new = Attempt # map (\<lambda>r. Answer (error_message (body r) \<noteq> None)) rs"

definition series_obs :: "bytes \<Rightarrow> rvc_req_param list \<Rightarrow> string option \<Rightarrow> event list \<Rightarrow> bool" where
  "series_obs t ps ev new \<longleftrightarrow>
     ctrl_requests new = replicate (length (ctrl_stamped new)) (ctrl_req t ps) \<and>
     length (ctrl_responses new) \<le> length (ctrl_stamped new) \<and>
     length (ctrl_stamped new) \<le> Suc (length (ctrl_responses new)) \<and>
     ctrl_outgoing new =
       map2 set_event_id (ev # map (\<lambda>r. event_id (body r)) (ctrl_responses new)) (ctrl_stamped new)"

inductive paces :: "nat \<Rightarrow> bool \<Rightarrow> pace list \<Rightarrow> bool \<Rightarrow> bool" where
  finished: "\<not> e \<or> n = 0 \<Longrightarrow> paces n e [] False"
| fault_before: "e \<Longrightarrow> paces (Suc n) e [Delay 2] True"
| fault_after: "e \<Longrightarrow> paces (Suc n) e [Delay 2, Attempt] True"
| again: "e \<Longrightarrow> paces n b p f \<Longrightarrow> paces (Suc n) e (Delay 2 # Attempt # Answer b # p) f"

text \<open>What one control command adds to the trace on the sample server.\<close>

definition sample_exchange :: "run \<Rightarrow> vin_info \<Rightarrow> bytes \<Rightarrow> rvc_req_param list \<Rightarrow> string option \<Rightarrow> bool \<Rightarrow> event list" where
  "sample_exchange st vi t ps ev failed =
     (let stamped = (ctrl_req t ps)\<lparr>body := (body (ctrl_req t ps))
            \<lparr>body_uid := uid (self st), body_token := token (self st), event_id := Some ''0''\<rparr>\<rparr>
      in [Initialize_message_v21 (uid (self st)) (token (self st)) (vin vi) ''510'' 25857 1 (ctrl_req t ps) stamped,
          Encode_request_v21 (set_event_id ev stamped) ''21'',
          Requests_post (saic_uri (self st) @ ''/TAP.Web/ota.mpv21'') ''21'' (request_headers ''21'') (cookies (self st))
            (Some \<lparr>status_code = 200, content = [], response_cookies = []\<rparr>),
          Decode_response_v21 [] (MessageV2 MessageBody_new None) (sample_answer failed)])"

text \<open>
  A server like the sample one whose control-command responses all carry an error payload
  and no event id.
\<close>

definition silent_answer :: message_v2 where
  "silent_answer = MessageV2 (MessageBody_new\<lparr>error_message := Some [1]\<rparr>) None"

definition silent_env :: env where
  "silent_env = (sample_env (login_ok None) 0 0)\<lparr>decode_response_v21 := (\<lambda>tr hex m. silent_answer)\<rparr>"

definition silent_exchange :: "run \<Rightarrow> vin_info \<Rightarrow> bytes \<Rightarrow> rvc_req_param list \<Rightarrow> string option \<Rightarrow> event list" where
  "silent_exchange st vi t ps ev =
     butlast (sample_exchange st vi t ps ev True) @
       [Decode_response_v21 [] (MessageV2 MessageBody_new None) silent_answer]"

text \<open>The first argument that \<open>login\<close> gives to \<open>initialize_message\<close>.\<close>

definition login_identifier :: "string \<Rightarrow> string" where
  "login_identifier user = drop (length user) UID_INIT @ user"

section \<open>Telemetry forwarder: properties\<close>

text \<open>
  Claim C10. If the telemetry API key or the telemetry user token is absent (\<open>None\<close>),
  \<open>update_abrp\<close> returns normally without any call to a collaborator: the trace is
  unchanged, so no network call is made, whatever the vehicle status and the charging
  status contain.
\<close>

theorem update_abrp_needs_credentials:
  assumes "abrp_api_key api = None \<or> abrp_user_token api = None"
  shows "update_abrp E api vehicle_status charge_status tr = (Inr (), tr)"
  using assms by (auto simp: update_abrp_def split: option.splits)

theorem update_abrp_needs_credentials_witness:
  "(abrp_api_key \<lparr>abrp_api_key = Some ''k'', abrp_user_token = None\<rparr> = None
      \<or> abrp_user_token \<lparr>abrp_api_key = Some ''k'', abrp_user_token = None\<rparr> = None)
   \<and> update_abrp (sample_env (login_ok None) 0 0) \<lparr>abrp_api_key = Some ''k'', abrp_user_token = None\<rparr>
        (Some sample_vehicle_status) (Some sample_charge_status) [] = (Inr (), [])"
  using update_abrp_needs_credentials[of "\<lparr>abrp_api_key = Some ''k'', abrp_user_token = None\<rparr>"
      "sample_env (login_ok None) 0 0" "Some sample_vehicle_status" "Some sample_charge_status" "[]"]
  by simp

lemma tlm_data_raises: "isl (tlm_data vs gps wp pos cs) \<longleftrightarrow> \<not> quotients_fit vs wp pos cs"
  by (simp add: tlm_data_def quotients_fit_def py_truediv_def Let_def)

text \<open>
  Claim C8, as the code has it. \<open>update_abrp\<close> makes no network call when the vehicle
  status, its GPS position, way point or position is absent, when latitude or longitude is
  not positive, or when the charging status is absent; it makes exactly one network call
  (the upload) when all of these are present and valid and, in addition, both the API
  key and the user token are set and the integers divided for the payload can be converted
  to a float. When one of them cannot, the method raises before any network call.
\<close>

theorem update_abrp_upload_count:
  "network_calls (snd (update_abrp E api vehicle_status charge_status tr)) =
     network_calls tr +
       (if abrp_api_key api \<noteq> None \<and> abrp_user_token api \<noteq> None
           \<and> valid_fix vehicle_status \<and> charge_status \<noteq> None
           \<and> payload_fits vehicle_status charge_status
        then 1 else 0)"
proof -
  have upload: "network_calls (snd (case tlm_data vs gps wp pos cs of Inl f \<Rightarrow> (Inl f, tr) | Inr data \<Rightarrow>
        (let tlm_send_url = ''https://api.iternio.com/1/tlm/send'';
             params = [(''api_key'', k), (''token'', u), (''tlm'', urlencode E data)];
             tlm_response = requests_get E tr tlm_send_url params;
             tr1 = tr @ [Requests_get tlm_send_url params tlm_response]
         in case tlm_response of
              None \<Rightarrow> (Inl RequestException, tr1)
            | Some r \<Rightarrow>
                (case raise_for_status r of
                   Some f \<Rightarrow> (Inl f, tr1)
                 | None \<Rightarrow> (Inr (), tr1 @ [Print_ABRP (content r)]))))) =
      network_calls tr + (if quotients_fit vs wp pos cs then 1 else 0)" for vs gps wp pos cs k u
    using tlm_data_raises[of vs gps wp pos cs]
    by (cases "tlm_data vs gps wp pos cs")
       (simp_all add: network_calls_def Let_def split: option.splits)
  show ?thesis
    by (simp add: update_abrp_def valid_fix_def payload_fits_def upload split: option.splits)
qed

theorem update_abrp_upload_count_witness:
  "fits_float 123450
   \<and> payload_fits (Some sample_vehicle_status) (Some sample_charge_status)
   \<and> network_calls (snd (update_abrp (sample_env (login_ok None) 0 0)
       \<lparr>abrp_api_key = Some ''k'', abrp_user_token = Some ''u''\<rparr>
       (Some sample_vehicle_status) (Some sample_charge_status) [])) = 1
   \<and> network_calls (snd (update_abrp (sample_env (login_ok None) 0 0)
       \<lparr>abrp_api_key = Some ''k'', abrp_user_token = Some ''u''\<rparr>
       (Some (sample_vehicle_status\<lparr>get_basic_vehicle_status :=
          \<lparr>exterior_temperature = 12, mileage = 10 ^ 309, fuel_range_elec = 2500\<rparr>\<rparr>))
       (Some sample_charge_status) [])) = 0"
  using update_abrp_upload_count[of "sample_env (login_ok None) 0 0"
      "\<lparr>abrp_api_key = Some ''k'', abrp_user_token = Some ''u''\<rparr>"
      "Some sample_vehicle_status" "Some sample_charge_status" "[]"]
    update_abrp_upload_count[of "sample_env (login_ok None) 0 0"
      "\<lparr>abrp_api_key = Some ''k'', abrp_user_token = Some ''u''\<rparr>"
      "Some (sample_vehicle_status\<lparr>get_basic_vehicle_status :=
          \<lparr>exterior_temperature = 12, mileage = 10 ^ 309, fuel_range_elec = 2500\<rparr>\<rparr>)"
      "Some sample_charge_status" "[]"]
  by (simp add: valid_fix_def payload_fits_def quotients_fit_def fits_float_def
      sample_vehicle_status_def sample_charge_status_def network_calls_def)

text \<open>
  Claim C8 as stated fails: with a valid vehicle status and a charging status but no API
  key, nothing is uploaded.
\<close>

theorem update_abrp_no_key_counterexample:
  "valid_fix (Some sample_vehicle_status) \<and> Some sample_charge_status \<noteq> None \<and>
   network_calls (snd (update_abrp (sample_env (login_ok None) 0 0)
       \<lparr>abrp_api_key = None, abrp_user_token = Some ''u''\<rparr>
       (Some sample_vehicle_status) (Some sample_charge_status) [])) = 0"
  by (simp add: valid_fix_def sample_vehicle_status_def update_abrp_def network_calls_def)

section \<open>Session manager: properties\<close>

lemma send_request_effect:
  assumes "send_request E h u st = (r, st')"
  shows "\<exists>p c. trace st' = trace st @ [Requests_post u h (request_headers h) (cookies (self st)) p]
           \<and> self st' = (self st)\<lparr>cookies := c\<rparr>"
proof -
  let ?p = "requests_post E (trace st) u h (request_headers h) (cookies (self st))"
  have t: "trace st' = trace st @ [Requests_post u h (request_headers h) (cookies (self st)) ?p]"
    using assms by (auto simp: send_request_def log_event_def Let_def split: option.splits)
  have "self st' = (self st)\<lparr>cookies := cookies (self st')\<rparr>"
    using assms by (auto simp: send_request_def log_event_def Let_def split: option.splits)
  with t show ?thesis by blast
qed


lemma login_effect:
  assumes "login E st = (res, st')"
  shows "\<exists>m m' hex u p c rest.
     trace st' = trace st @ [Initialize_message_v11 (login_identifier (saic_user (self st))) None ''501'' 513 1 m m',
                   Encode_request_v11 m' hex,
                   Requests_post u hex (request_headers hex) (cookies (self st)) p] @ rest
     \<and> (case res of
          Inr rsp \<Rightarrow> (\<exists>h a. rest = [Decode_response_v11 h a rsp]) \<and> error_message (body rsp) = None
             \<and> self st' = (self st)\<lparr>cookies := c, uid := body_uid (body rsp),
                   token := rsp_token (application_data rsp),
                   token_expiration := (case rsp_token_expiration (application_data rsp) of
                       None \<Rightarrow> token_expiration (self st) | Some e \<Rightarrow> Some e)\<rparr>
        | Inl f \<Rightarrow> self st' = (self st)\<lparr>cookies := c\<rparr> \<and>
             (rest = [] \<or> (\<exists>h a rsp err. rest = [Decode_response_v11 h a rsp] \<and> error_message (body rsp) = Some err
                 \<and> f = (case bytes_decode E err of None \<Rightarrow> UnicodeDecodeError | Some s \<Rightarrow> SystemExit s))))"
proof -
  define m where "m = MessageV11 (Header_new\<lparr>protocol_version := Some 17\<rparr>) MessageBody_new
      (MpUserLoggingInReq_new\<lparr>password := Some (saic_password (self st))\<rparr>)"
  define m' where "m' = initialize_message_v11 E (trace st) (login_identifier (saic_user (self st))) None ''501'' 513 1 m"
  define st1 where "st1 = log_event (Initialize_message_v11 (login_identifier (saic_user (self st))) None ''501'' 513 1 m m') st"
  define hex where "hex = encode_request_v11 E (trace st1) m'"
  define st2 where "st2 = log_event (Encode_request_v11 m' hex) st1"
  define url where "url = urljoin E (saic_uri (self st2)) ''/TAP.Web/ota.mp''"
  obtain r st3 where sr: "send_request E hex url st2 = (r, st3)" by (cases "send_request E hex url st2")
  from send_request_effect[OF sr] obtain p c where
    t3: "trace st3 = trace st2 @ [Requests_post url hex (request_headers hex) (cookies (self st2)) p]"
    and s3: "self st3 = (self st2)\<lparr>cookies := c\<rparr>" by blast
  have s2: "self st2 = self st" and t2: "trace st2 = trace st @ [Initialize_message_v11 (login_identifier (saic_user (self st))) None ''501'' 513 1 m m', Encode_request_v11 m' hex]"
    by (simp_all add: st2_def st1_def log_event_def)
  have L: "login E st = (case r of Inl f \<Rightarrow> (Inl f, st3)
      | Inr rhex \<Rightarrow>
         (let a = \<lparr>msg_header = msg_header m', body = MessageBody_new, application_data = MpUserLoggingInRsp_new\<rparr>;
              rsp = decode_response_v11 E (trace st3) rhex a;
              st4 = log_event (Decode_response_v11 rhex a rsp) st3
          in case error_message (body rsp) of
               Some err \<Rightarrow> (case bytes_decode E err of None \<Rightarrow> (Inl UnicodeDecodeError, st4) | Some s \<Rightarrow> (Inl (SystemExit s), st4))
             | None \<Rightarrow> (Inr rsp, st4\<lparr>self := (self st4)\<lparr>uid := body_uid (body rsp), token := rsp_token (application_data rsp),
                  token_expiration := (case rsp_token_expiration (application_data rsp) of
                       None \<Rightarrow> token_expiration (self st4) | Some e \<Rightarrow> Some e)\<rparr>\<rparr>)))"
    using sr
    by (simp add: login_def call_initialize_message_v11_def call_encode_request_v11_def call_decode_response_v11_def
        Let_def m_def m'_def st1_def hex_def st2_def url_def login_identifier_def split: sum.splits option.splits)
  show ?thesis
  proof (cases r)
    case (Inl f)
    with L assms have "res = Inl f" "st' = st3" by auto
    then show ?thesis
      apply -
      apply (rule exI[of _ m], rule exI[of _ m'], rule exI[of _ hex], rule exI[of _ url], rule exI[of _ p], rule exI[of _ c], rule exI[of _ "[]"])
      using t3 s3 s2 t2 by simp
  next
    case (Inr rhex)
    define a where "a = \<lparr>msg_header = msg_header m', body = MessageBody_new, application_data = MpUserLoggingInRsp_new\<rparr>"
    define rsp where "rsp = decode_response_v11 E (trace st3) rhex a"
    define st4 where "st4 = log_event (Decode_response_v11 rhex a rsp) st3"
    have s4: "self st4 = (self st)\<lparr>cookies := c\<rparr>" and t4: "trace st4 = trace st3 @ [Decode_response_v11 rhex a rsp]"
      by (simp_all add: st4_def log_event_def s3 s2)
    have L': "login E st = (case error_message (body rsp) of
               Some err \<Rightarrow> (case bytes_decode E err of None \<Rightarrow> (Inl UnicodeDecodeError, st4) | Some s \<Rightarrow> (Inl (SystemExit s), st4))
             | None \<Rightarrow> (Inr rsp, st4\<lparr>self := (self st4)\<lparr>uid := body_uid (body rsp), token := rsp_token (application_data rsp),
                  token_expiration := (case rsp_token_expiration (application_data rsp) of
                       None \<Rightarrow> token_expiration (self st4) | Some e \<Rightarrow> Some e)\<rparr>\<rparr>))"
      unfolding st4_def rsp_def a_def using L Inr by (simp add: Let_def)
    show ?thesis
    proof (cases "error_message (body rsp)")
      case None
      with L' have "login E st = (Inr rsp, st4\<lparr>self := (self st4)\<lparr>uid := body_uid (body rsp), token := rsp_token (application_data rsp),
                  token_expiration := (case rsp_token_expiration (application_data rsp) of
                       None \<Rightarrow> token_expiration (self st4) | Some e \<Rightarrow> Some e)\<rparr>\<rparr>)" by simp
      with assms have "res = Inr rsp" "st' = st4\<lparr>self := (self st4)\<lparr>uid := body_uid (body rsp), token := rsp_token (application_data rsp),
                  token_expiration := (case rsp_token_expiration (application_data rsp) of
                       None \<Rightarrow> token_expiration (self st4) | Some e \<Rightarrow> Some e)\<rparr>\<rparr>"
        by simp_all
      then show ?thesis
        apply -
        apply (rule exI[of _ m], rule exI[of _ m'], rule exI[of _ hex], rule exI[of _ url], rule exI[of _ p], rule exI[of _ c], rule exI[of _ "[Decode_response_v11 rhex a rsp]"])
        using None t3 s2 t2 s4 t4 by (simp split: option.split)
    next
      case (Some err)
      with L' have "login E st = (Inl (case bytes_decode E err of None \<Rightarrow> UnicodeDecodeError | Some s \<Rightarrow> SystemExit s), st4)"
        by (simp split: option.splits)
      with assms have "res = Inl (case bytes_decode E err of None \<Rightarrow> UnicodeDecodeError | Some s \<Rightarrow> SystemExit s)" "st' = st4"
        by simp_all
      then show ?thesis
        apply -
        apply (rule exI[of _ m], rule exI[of _ m'], rule exI[of _ hex], rule exI[of _ url], rule exI[of _ p], rule exI[of _ c], rule exI[of _ "[Decode_response_v11 rhex a rsp]"])
        using Some t3 s2 t2 s4 t4 by simp
    qed
  qed
qed


lemma map_filter_append: "List.map_filter f (xs @ ys) = List.map_filter f xs @ List.map_filter f ys"
  by (simp add: List.map_filter_def)

lemma new_events_append: "trace st' = trace st @ new \<Longrightarrow> new_events st st' = new"
  by (simp add: new_events_def)

lemma UID_INIT_eq: "UID_INIT = replicate 49 (CHR ''0'') @ ''#''"
  by (simp add: UID_INIT_def eval_nat_numeral)

lemma login_identifier_short:
  assumes "length user < 50"
  shows "login_identifier user = replicate (49 - length user) (CHR ''0'') @ ''#'' @ user"
  using assms by (simp add: login_identifier_def UID_INIT_eq)

lemma sample_env_fields:
  "initialize_message_v11 (sample_env rsp k now) =
     (\<lambda>tr u t app_id version message_id m. m\<lparr>body := (body m)\<lparr>body_uid := Some u, body_token := t\<rparr>\<rparr>)"
  "encode_request_v11 (sample_env rsp k now) = (\<lambda>tr m. ''11'')"
  "decode_response_v11 (sample_env rsp k now) = (\<lambda>tr hex m. rsp)"
  "initialize_message_v21 (sample_env rsp k now) =
     (\<lambda>tr u t v app_id version message_id m.
           m\<lparr>body := (body m)\<lparr>body_uid := u, body_token := t, event_id := Some ''0''\<rparr>\<rparr>)"
  "encode_request_v21 (sample_env rsp k now) = (\<lambda>tr m. ''21'')"
  "decode_response_v21 (sample_env rsp k now) =
     (\<lambda>tr hex m. sample_answer (length (ctrl_responses tr) < k))"
  "requests_post (sample_env rsp k now) =
     (\<lambda>tr url payload headers jar. Some \<lparr>status_code = 200, content = [], response_cookies = []\<rparr>)"
  "requests_get (sample_env rsp k now) =
     (\<lambda>tr url params. Some \<lparr>status_code = 200, content = [], response_cookies = []\<rparr>)"
  "urljoin (sample_env rsp k now) = (\<lambda>base path. base @ path)"
  "urlencode (sample_env rsp k now) = (\<lambda>data. ''tlm'')"
  "bytes_decode (sample_env rsp k now) = (\<lambda>bs. Some (map (\<lambda>b. CHR ''?'') bs))"
  "datetime_now (sample_env rsp k now) = (\<lambda>tr. now)"
  by (simp_all add: sample_env_def)

lemma sample_send_request:
  "send_request (sample_env rsp k now) hex url st =
     (Inr [], st\<lparr>trace := trace st @ [Requests_post url hex (request_headers hex) (cookies (self st))
                       (Some \<lparr>status_code = 200, content = [], response_cookies = []\<rparr>)],
                self := (self st)\<lparr>cookies := Some []\<rparr>\<rparr>)"
  by (simp add: send_request_def sample_env_fields Let_def raise_for_status_def log_event_def)

lemma sample_login:
  "fst (login (sample_env rsp k now) st) =
     (case error_message (body rsp) of
        Some err \<Rightarrow> Inl (SystemExit (map (\<lambda>b. CHR ''?'') err))
      | None \<Rightarrow> Inr rsp)"
  "login_requests (new_events st (snd (login (sample_env rsp k now) st))) = [login_identifier (saic_user (self st))]"
  "login_responses (new_events st (snd (login (sample_env rsp k now) st))) = [rsp]"
  "self (snd (login (sample_env rsp k now) st)) =
     (case error_message (body rsp) of
        Some err \<Rightarrow> (self st)\<lparr>cookies := Some []\<rparr>
      | None \<Rightarrow> (self st)\<lparr>cookies := Some [], uid := body_uid (body rsp), token := rsp_token (application_data rsp),
              token_expiration := (case rsp_token_expiration (application_data rsp) of
                 None \<Rightarrow> token_expiration (self st) | Some e \<Rightarrow> Some e)\<rparr>)"
  by (simp_all add: login_def sample_send_request sample_env_fields Let_def
      call_initialize_message_v11_def call_encode_request_v11_def call_decode_response_v11_def log_event_def
      login_requests_def login_responses_def login_identifier_def new_events_def split: option.splits)

lemma login_new:
  assumes "login E st = (res, st')"
  shows "\<exists>new. trace st' = trace st @ new \<and> ctrl_events new = []
           \<and> login_requests new = [login_identifier (saic_user (self st))]"
proof -
  from login_effect[OF assms] obtain m m' hex u p c rest where
    t: "trace st' = trace st @ [Initialize_message_v11 (login_identifier (saic_user (self st))) None ''501'' 513 1 m m',
                   Encode_request_v11 m' hex,
                   Requests_post u hex (request_headers hex) (cookies (self st)) p] @ rest"
    and r: "rest = [] \<or> (\<exists>h a rsp. rest = [Decode_response_v11 h a rsp])"
    by (cases res) auto
  from r have "ctrl_events rest = []" "login_requests rest = []"
    by (auto simp: ctrl_events_def login_requests_def)
  with t show ?thesis
    by (intro exI[of _ "[Initialize_message_v11 (login_identifier (saic_user (self st))) None ''501'' 513 1 m m',
                   Encode_request_v11 m' hex,
                   Requests_post u hex (request_headers hex) (cookies (self st)) p] @ rest"])
       (simp add: ctrl_events_def login_requests_def map_filter_append)
qed

lemma get_token_effect:
  assumes "get_token E st = (res, st')"
  shows "\<exists>new. trace st' = trace st @ new \<and> ctrl_events new = []
     \<and> login_requests new = (if token_expired E st then [login_identifier (saic_user (self st))] else [])
     \<and> (\<not> token_expired E st \<longrightarrow> st' = st \<and> res = Inr (token (self st)))
     \<and> (token_expired E st \<longrightarrow> st' = snd (login E st))
     \<and> (\<forall>t. res = Inr t \<longrightarrow> t = token (self st'))"
proof (cases "token_expired E st")
  case False
  with assms have "st' = st" "res = Inr (token (self st))"
    by (auto simp: get_token_def token_expired_def split: option.splits)
  with False show ?thesis by (intro exI[of _ "[]"]) (simp add: ctrl_events_def login_requests_def)
next
  case True
  obtain r s1 where l: "login E st = (r, s1)" by (cases "login E st")
  with True assms have "st' = s1" "\<forall>t. res = Inr t \<longrightarrow> t = token (self s1)"
    by (auto simp: get_token_def token_expired_def split: option.splits sum.splits)
  with login_new[OF l] True l show ?thesis by auto
qed

text \<open>
  Claim C2, as the code has it. When the decoded login response carries no error payload,
  \<open>login\<close> returns that response and overwrites the stored token (and uid) with the
  values of the response, whatever was stored before; the stored expiration is overwritten
  only when the response supplies one, and is kept as it was otherwise.
\<close>

theorem login_overwrites_session:
  assumes "login E st = (res, st')"
      and "login_responses (new_events st st') = [rsp]"
      and "error_message (body rsp) = None"
  shows "res = Inr rsp
       \<and> token (self st') = rsp_token (application_data rsp)
       \<and> uid (self st') = body_uid (body rsp)
       \<and> token_expiration (self st') =
            (case rsp_token_expiration (application_data rsp) of
               Some expiration \<Rightarrow> Some expiration
             | None \<Rightarrow> token_expiration (self st))"
proof -
  from login_effect[OF assms(1)] obtain m m' hex u p c rest where
    t: "trace st' = trace st @ [Initialize_message_v11 (login_identifier (saic_user (self st))) None ''501'' 513 1 m m',
                   Encode_request_v11 m' hex,
                   Requests_post u hex (request_headers hex) (cookies (self st)) p] @ rest"
    and r: "(case res of
          Inr rsp \<Rightarrow> (\<exists>h a. rest = [Decode_response_v11 h a rsp]) \<and> error_message (body rsp) = None
             \<and> self st' = (self st)\<lparr>cookies := c, uid := body_uid (body rsp),
                   token := rsp_token (application_data rsp),
                   token_expiration := (case rsp_token_expiration (application_data rsp) of
                       None \<Rightarrow> token_expiration (self st) | Some e \<Rightarrow> Some e)\<rparr>
        | Inl f \<Rightarrow> self st' = (self st)\<lparr>cookies := c\<rparr> \<and>
             (rest = [] \<or> (\<exists>h a rsp err. rest = [Decode_response_v11 h a rsp] \<and> error_message (body rsp) = Some err
                 \<and> f = (case bytes_decode E err of None \<Rightarrow> UnicodeDecodeError | Some s \<Rightarrow> SystemExit s))))"
    by blast
  from t have "login_responses (new_events st st') = login_responses rest"
    by (simp add: new_events_append[OF t] login_responses_def map_filter_append)
  with assms(2) have lr: "login_responses rest = [rsp]" by simp
  show ?thesis
  proof (cases res)
    case (Inl f)
    with r lr assms(3) show ?thesis by (auto simp: login_responses_def)
  next
    case (Inr rsp')
    with r lr have "rsp' = rsp" by (auto simp: login_responses_def)
    with r Inr show ?thesis by (auto split: option.splits)
  qed
qed

theorem login_overwrites_session_witness:
  "login_responses (new_events (sample_run ''abc'' (Some 100))
        (snd (login (sample_env (login_ok (Some 900)) 0 0) (sample_run ''abc'' (Some 100))))) = [login_ok (Some 900)]
   \<and> error_message (body (login_ok (Some 900))) = None
   \<and> token (self (snd (login (sample_env (login_ok (Some 900)) 0 0) (sample_run ''abc'' (Some 100))))) = Some ''t1''
   \<and> token_expiration (self (snd (login (sample_env (login_ok (Some 900)) 0 0) (sample_run ''abc'' (Some 100))))) = Some 900"
  using login_overwrites_session[of "sample_env (login_ok (Some 900)) 0 0" "sample_run ''abc'' (Some 100)"
      "fst (login (sample_env (login_ok (Some 900)) 0 0) (sample_run ''abc'' (Some 100)))"
      "snd (login (sample_env (login_ok (Some 900)) 0 0) (sample_run ''abc'' (Some 100)))"
      "login_ok (Some 900)"]
  by (simp add: sample_login(3) login_ok_def)

text \<open>
  Claim C2 as stated fails: a successful login whose response supplies no expiration
  leaves the previously stored expiration (here 100) in place.
\<close>

theorem login_keeps_expiration_counterexample:
  "fst (login (sample_env (login_ok None) 0 0) (sample_run ''abc'' (Some 100))) = Inr (login_ok None)
   \<and> rsp_token_expiration (application_data (login_ok None)) = None
   \<and> token_expiration (self (snd (login (sample_env (login_ok None) 0 0) (sample_run ''abc'' (Some 100))))) = Some 100"
  by (simp add: sample_login login_ok_def sample_run_def)

text \<open>
  Claim C7. When the decoded login response carries an error payload, \<open>login\<close> raises
  (\<open>SystemExit\<close> with the decoded payload, or the error of decoding it) instead of
  returning, and the stored token, uid and expiration are what they were before the call.
\<close>

theorem login_error_aborts:
  assumes "login E st = (res, st')"
      and "login_responses (new_events st st') = [rsp]"
      and "error_message (body rsp) = Some err"
  shows "res = Inl (case bytes_decode E err of None \<Rightarrow> UnicodeDecodeError | Some s \<Rightarrow> SystemExit s)
       \<and> token (self st') = token (self st)
       \<and> uid (self st') = uid (self st)
       \<and> token_expiration (self st') = token_expiration (self st)"
proof -
  from login_effect[OF assms(1)] obtain m m' hex u p c rest where
    t: "trace st' = trace st @ [Initialize_message_v11 (login_identifier (saic_user (self st))) None ''501'' 513 1 m m',
                   Encode_request_v11 m' hex,
                   Requests_post u hex (request_headers hex) (cookies (self st)) p] @ rest"
    and r: "(case res of
          Inr rsp \<Rightarrow> (\<exists>h a. rest = [Decode_response_v11 h a rsp]) \<and> error_message (body rsp) = None
             \<and> self st' = (self st)\<lparr>cookies := c, uid := body_uid (body rsp),
                   token := rsp_token (application_data rsp),
                   token_expiration := (case rsp_token_expiration (application_data rsp) of
                       None \<Rightarrow> token_expiration (self st) | Some e \<Rightarrow> Some e)\<rparr>
        | Inl f \<Rightarrow> self st' = (self st)\<lparr>cookies := c\<rparr> \<and>
             (rest = [] \<or> (\<exists>h a rsp err. rest = [Decode_response_v11 h a rsp] \<and> error_message (body rsp) = Some err
                 \<and> f = (case bytes_decode E err of None \<Rightarrow> UnicodeDecodeError | Some s \<Rightarrow> SystemExit s))))"
    by blast
  from t have "login_responses (new_events st st') = login_responses rest"
    by (simp add: new_events_append[OF t] login_responses_def map_filter_append)
  with assms(2) have lr: "login_responses rest = [rsp]" by simp
  show ?thesis
  proof (cases res)
    case (Inl f)
    with r lr assms(3) show ?thesis by (auto simp: login_responses_def)
  next
    case (Inr rsp')
    with r lr have "rsp' = rsp" by (auto simp: login_responses_def)
    with r Inr assms(3) show ?thesis by auto
  qed
qed

theorem login_error_aborts_witness:
  "login_responses (new_events (sample_run ''abc'' None)
        (snd (login (sample_env login_refused 0 0) (sample_run ''abc'' None)))) = [login_refused]
   \<and> error_message (body login_refused) = Some [110, 111]
   \<and> fst (login (sample_env login_refused 0 0) (sample_run ''abc'' None)) = Inl (SystemExit ''??'')
   \<and> token (self (snd (login (sample_env login_refused 0 0) (sample_run ''abc'' None)))) = Some ''t0''
   \<and> token_expiration (self (snd (login (sample_env login_refused 0 0) (sample_run ''abc'' None)))) = None"
  using login_error_aborts[of "sample_env login_refused 0 0" "sample_run ''abc'' None"
      "fst (login (sample_env login_refused 0 0) (sample_run ''abc'' None))"
      "snd (login (sample_env login_refused 0 0) (sample_run ''abc'' None))"
      login_refused "[110, 111]"]
  by (simp add: sample_login(3) login_refused_def sample_env_fields sample_run_def SaicApi_init_def)

text \<open>
  Claim C3, as the code has it. For every username shorter than the fixed width (the 50
  characters of \<open>UID_INIT\<close>), the login identifier that \<open>login\<close> submits is the username
  preceded by a padding that brings it to exactly 50 characters: zero-characters followed
  by one \<open>#\<close> immediately before the username.
\<close>

theorem login_identifier_padding:
  assumes "login E st = (res, st')"
      and "length (saic_user (self st)) < length UID_INIT"
  shows "login_requests (new_events st st') =
           [replicate (49 - length (saic_user (self st))) (CHR ''0'') @ ''#'' @ saic_user (self st)]
       \<and> length (replicate (49 - length (saic_user (self st))) (CHR ''0'') @ ''#'' @ saic_user (self st))
           = length UID_INIT
       \<and> length UID_INIT = 50"
proof -
  from login_effect[OF assms(1)] obtain m m' hex u p rest where
    t: "trace st' = trace st @ [Initialize_message_v11 (login_identifier (saic_user (self st))) None ''501'' 513 1 m m',
                   Encode_request_v11 m' hex,
                   Requests_post u hex (request_headers hex) (cookies (self st)) p] @ rest"
    and r: "rest = [] \<or> (\<exists>h a rsp. rest = [Decode_response_v11 h a rsp])"
    by (cases res) auto
  have l: "length UID_INIT = 50" by (simp add: UID_INIT_eq)
  from r have "login_requests rest = []" by (auto simp: login_requests_def)
  with t have "login_requests (new_events st st') = [login_identifier (saic_user (self st))]"
    by (simp add: new_events_append[OF t] login_requests_def map_filter_append)
  with assms(2) l show ?thesis by (simp add: login_identifier_short)
qed

theorem login_identifier_padding_witness:
  "length (saic_user (self (sample_run ''abc'' None))) < length UID_INIT
   \<and> login_requests (new_events (sample_run ''abc'' None)
        (snd (login (sample_env (login_ok None) 0 0) (sample_run ''abc'' None)))) =
        [''0000000000000000000000000000000000000000000000#abc'']"
  using login_identifier_padding[of "sample_env (login_ok None) 0 0" "sample_run ''abc'' None"
      "fst (login (sample_env (login_ok None) 0 0) (sample_run ''abc'' None))"
      "snd (login (sample_env (login_ok None) 0 0) (sample_run ''abc'' None))"]
  by (simp add: sample_run_def SaicApi_init_def UID_INIT_def eval_nat_numeral)

text \<open>
  Claim C3 as stated fails: for the username \<open>abc\<close> the 47 characters of padding are 46
  zero-characters and a \<open>#\<close>, not 47 zero-characters.
\<close>

theorem login_identifier_hash_counterexample:
  "login_requests (new_events (sample_run ''abc'' None)
        (snd (login (sample_env (login_ok None) 0 0) (sample_run ''abc'' None)))) =
        [''0000000000000000000000000000000000000000000000#abc'']
   \<and> ''0000000000000000000000000000000000000000000000#abc'' \<noteq> replicate 47 (CHR ''0'') @ ''abc''
   \<and> take 47 ''0000000000000000000000000000000000000000000000#abc'' \<noteq> replicate 47 (CHR ''0'')"
  by (simp add: sample_login(2) login_identifier_def sample_run_def SaicApi_init_def UID_INIT_def eval_nat_numeral)




section \<open>Retry coordinator: properties\<close>

lemma foldl_append_params:
  "foldl (\<lambda>req p. req\<lparr>rvc_params := rvc_params req @ [p]\<rparr>) r ps = r\<lparr>rvc_params := rvc_params r @ ps\<rparr>"
  by (induction ps arbitrary: r) simp_all

lemma svcc_effect:
  assumes "send_vehicle_control_command E vi t ps ev st = (res, st')"
  shows "\<exists>new. trace st' = trace st @ new \<and>
     (case res of
        Inr r \<Rightarrow> (\<exists>u tok m' hex h. ctrl_events new =
            [Initialize_message_v21 u tok (vin vi) ''510'' 25857 1 (ctrl_req t ps) m',
             Encode_request_v21 (set_event_id ev m') hex,
             Decode_response_v21 h (MessageV2 MessageBody_new None) r])
      | Inl f \<Rightarrow> ctrl_events new = [] \<or> (\<exists>u tok m' hex. ctrl_events new =
            [Initialize_message_v21 u tok (vin vi) ''510'' 25857 1 (ctrl_req t ps) m',
             Encode_request_v21 (set_event_id ev m') hex]))"
proof -
  obtain g s1 where g: "get_token E st = (g, s1)" by (cases "get_token E st")
  from get_token_effect[OF g] obtain n1 where t1: "trace s1 = trace st @ n1" and c1: "ctrl_events n1 = []" by blast
  show ?thesis
  proof (cases g)
    case (Inl f)
    with g assms have "res = Inl f" "st' = s1"
      by (auto simp: send_vehicle_control_command_def Let_def)
    with t1 c1 show ?thesis by auto
  next
    case (Inr tok)
    define m' where "m' = initialize_message_v21 E (trace s1) (uid (self st)) tok (vin vi) ''510'' 25857 1 (ctrl_req t ps)"
    define s2 where "s2 = log_event (Initialize_message_v21 (uid (self st)) tok (vin vi) ''510'' 25857 1 (ctrl_req t ps) m') s1"
    define hex where "hex = encode_request_v21 E (trace s2) (set_event_id ev m')"
    define s3 where "s3 = log_event (Encode_request_v21 (set_event_id ev m') hex) s2"
    define url where "url = urljoin E (saic_uri (self s3)) ''/TAP.Web/ota.mpv21''"
    obtain r s4 where sr: "send_request E hex url s3 = (r, s4)" by (cases "send_request E hex url s3")
    from send_request_effect[OF sr] obtain p where
      t4: "trace s4 = trace s3 @ [Requests_post url hex (request_headers hex) (cookies (self s3)) p]" by blast
    have t3: "trace s3 = trace st @ n1 @ [Initialize_message_v21 (uid (self st)) tok (vin vi) ''510'' 25857 1 (ctrl_req t ps) m',
        Encode_request_v21 (set_event_id ev m') hex]"
      by (simp add: s3_def s2_def log_event_def t1)
    have L: "send_vehicle_control_command E vi t ps ev st = (case r of Inl f \<Rightarrow> (Inl f, s4)
       | Inr rhex \<Rightarrow> (let rsp = decode_response_v21 E (trace s4) rhex (MessageV2 MessageBody_new None)
            in (Inr rsp, log_event (Decode_response_v21 rhex (MessageV2 MessageBody_new None) rsp) s4)))"
      using g Inr sr
      by (simp add: send_vehicle_control_command_def Let_def call_initialize_message_v21_def
          call_encode_request_v21_def call_decode_response_v21_def foldl_append_params OtaRvcReq_new_def
          ctrl_req_def[symmetric] m'_def[symmetric] s2_def[symmetric] hex_def[symmetric] s3_def[symmetric] url_def[symmetric]
          split: sum.splits)
    show ?thesis
    proof (cases r)
      case (Inl f)
      with L assms have "res = Inl f" "st' = s4" by auto
      with t4 t3 c1 show ?thesis
        by (intro exI[of _ "n1 @ [Initialize_message_v21 (uid (self st)) tok (vin vi) ''510'' 25857 1 (ctrl_req t ps) m',
        Encode_request_v21 (set_event_id ev m') hex, Requests_post url hex (request_headers hex) (cookies (self s3)) p]"])
          (simp add: ctrl_events_def)
    next
      case (Inr rhex)
      define rsp where "rsp = decode_response_v21 E (trace s4) rhex (MessageV2 MessageBody_new None)"
      from L Inr assms have "res = Inr rsp" "st' = log_event (Decode_response_v21 rhex (MessageV2 MessageBody_new None) rsp) s4"
        by (auto simp: Let_def rsp_def)
      with t4 t3 c1 show ?thesis
        by (intro exI[of _ "n1 @ [Initialize_message_v21 (uid (self st)) tok (vin vi) ''510'' 25857 1 (ctrl_req t ps) m',
        Encode_request_v21 (set_event_id ev m') hex, Requests_post url hex (request_headers hex) (cookies (self s3)) p,
        Decode_response_v21 rhex (MessageV2 MessageBody_new None) rsp]"])
          (simp add: ctrl_events_def log_event_def)
    qed
  qed
qed

lemma ctrl_events_append: "ctrl_events (xs @ ys) = ctrl_events xs @ ctrl_events ys"
  by (simp add: ctrl_events_def)

lemma map_filter_via_filter:
  assumes "\<And>e. f e \<noteq> None \<Longrightarrow> P e"
  shows "List.map_filter f (filter P tr) = List.map_filter f tr"
proof (induction tr)
  case Nil
  show ?case by simp
next
  case (Cons e tr)
  show ?case
  proof (cases "f e")
    case None
    with Cons show ?thesis by simp
  next
    case (Some y)
    with assms[of e] have "P e" by simp
    with Cons Some show ?thesis by simp
  qed
qed

lemma ctrl_event_if_observed:
  "ctrl_request_of e \<noteq> None \<Longrightarrow> is_ctrl_event e"
  "ctrl_stamped_of e \<noteq> None \<Longrightarrow> is_ctrl_event e"
  "ctrl_outgoing_of e \<noteq> None \<Longrightarrow> is_ctrl_event e"
  "ctrl_response_of e \<noteq> None \<Longrightarrow> is_ctrl_event e"
  "pace_of e \<noteq> None \<Longrightarrow> is_ctrl_event e"
  by (cases e; simp)+

lemma ctrl_requests_via: "ctrl_requests (ctrl_events tr) = ctrl_requests tr"
  unfolding ctrl_requests_def ctrl_events_def
  by (rule map_filter_via_filter) (rule ctrl_event_if_observed(1))

lemma ctrl_stamped_via: "ctrl_stamped (ctrl_events tr) = ctrl_stamped tr"
  unfolding ctrl_stamped_def ctrl_events_def
  by (rule map_filter_via_filter) (rule ctrl_event_if_observed(2))

lemma ctrl_outgoing_via: "ctrl_outgoing (ctrl_events tr) = ctrl_outgoing tr"
  unfolding ctrl_outgoing_def ctrl_events_def
  by (rule map_filter_via_filter) (rule ctrl_event_if_observed(3))

lemma ctrl_responses_via: "ctrl_responses (ctrl_events tr) = ctrl_responses tr"
  unfolding ctrl_responses_def ctrl_events_def
  by (rule map_filter_via_filter) (rule ctrl_event_if_observed(4))

lemma pacing_via: "pacing (ctrl_events tr) = pacing tr"
  unfolding pacing_def ctrl_events_def
  by (rule map_filter_via_filter) (rule ctrl_event_if_observed(5))

lemma obs_via:
  assumes "ctrl_events new = es"
  shows "ctrl_requests new = ctrl_requests es" "ctrl_stamped new = ctrl_stamped es"
        "ctrl_outgoing new = ctrl_outgoing es" "ctrl_responses new = ctrl_responses es"
        "pacing new = pacing es"
  using ctrl_requests_via[of new] ctrl_stamped_via[of new] ctrl_outgoing_via[of new]
      ctrl_responses_via[of new] pacing_via[of new] assms by simp_all

lemma via_nil:
  assumes "ctrl_events new = []"
  shows "ctrl_requests new = []" "ctrl_stamped new = []" "ctrl_outgoing new = []"
        "ctrl_responses new = []" "pacing new = []"
  using obs_via[OF assms]
  by (simp_all add: ctrl_requests_def ctrl_stamped_def ctrl_outgoing_def ctrl_responses_def pacing_def)

lemma svcc_obs:
  assumes "send_vehicle_control_command E vi t ps ev st = (res, st')"
  shows "\<exists>new. trace st' = trace st @ new \<and>
     (case res of
        Inl f \<Rightarrow> ctrl_events new = [] \<or> attempt_obs t ps ev [] new
      | Inr r \<Rightarrow> attempt_obs t ps ev [r] new)"
proof -
  from svcc_effect[OF assms] obtain new where t: "trace st' = trace st @ new" and
    c: "(case res of
        Inr r \<Rightarrow> (\<exists>u tok m' hex h. ctrl_events new =
            [Initialize_message_v21 u tok (vin vi) ''510'' 25857 1 (ctrl_req t ps) m',
             Encode_request_v21 (set_event_id ev m') hex,
             Decode_response_v21 h (MessageV2 MessageBody_new None) r])
      | Inl f \<Rightarrow> ctrl_events new = [] \<or> (\<exists>u tok m' hex. ctrl_events new =
            [Initialize_message_v21 u tok (vin vi) ''510'' 25857 1 (ctrl_req t ps) m',
             Encode_request_v21 (set_event_id ev m') hex]))" by blast
  have a2: "attempt_obs t ps ev [] new"
    if "ctrl_events new = [Initialize_message_v21 u tok (vin vi) ''510'' 25857 1 (ctrl_req t ps) m',
             Encode_request_v21 (set_event_id ev m') hex]" for u tok m' hex
    unfolding attempt_obs_def using obs_via[OF that]
    by (simp add: ctrl_requests_def ctrl_stamped_def ctrl_outgoing_def ctrl_responses_def pacing_def)
  have a3: "attempt_obs t ps ev [r] new"
    if "ctrl_events new = [Initialize_message_v21 u tok (vin vi) ''510'' 25857 1 (ctrl_req t ps) m',
             Encode_request_v21 (set_event_id ev m') hex,
             Decode_response_v21 h (MessageV2 MessageBody_new None) r]" for u tok m' hex h r
    unfolding attempt_obs_def using obs_via[OF that]
    by (simp add: ctrl_requests_def ctrl_stamped_def ctrl_outgoing_def ctrl_responses_def pacing_def)
  show ?thesis
  proof (cases res)
    case (Inl f)
    with c a2 have "ctrl_events new = [] \<or> attempt_obs t ps ev [] new" by auto
    with t Inl show ?thesis by auto
  next
    case (Inr r)
    with c a3 have "attempt_obs t ps ev [r] new" by auto
    with t Inr show ?thesis by auto
  qed
qed

lemma obs_append:
  "ctrl_requests (xs @ ys) = ctrl_requests xs @ ctrl_requests ys"
  "ctrl_stamped (xs @ ys) = ctrl_stamped xs @ ctrl_stamped ys"
  "ctrl_outgoing (xs @ ys) = ctrl_outgoing xs @ ctrl_outgoing ys"
  "ctrl_responses (xs @ ys) = ctrl_responses xs @ ctrl_responses ys"
  "pacing (xs @ ys) = pacing xs @ pacing ys"
  by (simp_all add: ctrl_requests_def ctrl_stamped_def ctrl_outgoing_def ctrl_responses_def pacing_def
      map_filter_append)

lemma obs_sleep:
  "ctrl_requests [Time_sleep n] = []" "ctrl_stamped [Time_sleep n] = []" "ctrl_outgoing [Time_sleep n] = []"
  "ctrl_responses [Time_sleep n] = []" "pacing [Time_sleep n] = [Delay n]"
  by (simp_all add: ctrl_requests_def ctrl_stamped_def ctrl_outgoing_def ctrl_responses_def pacing_def)

lemma series_nil: "ctrl_events new = [] \<Longrightarrow> series_obs t ps ev new"
  by (simp add: series_obs_def via_nil)

lemma series_one:
  assumes "attempt_obs t ps ev rs new" and "length rs \<le> 1"
  shows "series_obs t ps ev new"
proof -
  from assms(1) obtain m' where "ctrl_requests new = [ctrl_req t ps]" "ctrl_stamped new = [m']"
    "ctrl_outgoing new = [set_event_id ev m']" "ctrl_responses new = rs"
    unfolding attempt_obs_def by blast
  with assms(2) show ?thesis unfolding series_obs_def by simp
qed

lemma series_cons:
  assumes "attempt_obs t ps ev [r] n1" and "series_obs t ps (event_id (body r)) n2"
  shows "series_obs t ps ev (n1 @ n2)"
proof -
  from assms(1) obtain m' where a: "ctrl_requests n1 = [ctrl_req t ps]" "ctrl_stamped n1 = [m']"
    "ctrl_outgoing n1 = [set_event_id ev m']" "ctrl_responses n1 = [r]"
    unfolding attempt_obs_def by blast
  from assms(2) have b: "ctrl_requests n2 = replicate (length (ctrl_stamped n2)) (ctrl_req t ps)"
    "length (ctrl_responses n2) \<le> length (ctrl_stamped n2)"
    "length (ctrl_stamped n2) \<le> Suc (length (ctrl_responses n2))"
    "ctrl_outgoing n2 = map2 set_event_id (event_id (body r) # map (\<lambda>r. event_id (body r)) (ctrl_responses n2)) (ctrl_stamped n2)"
    unfolding series_obs_def by blast+
  show ?thesis unfolding series_obs_def obs_append a
    using b by simp
qed

lemma series_sleep: "series_obs t ps ev new \<Longrightarrow> series_obs t ps ev (Time_sleep n # new)"
  using obs_append(1-4)[of "[Time_sleep n]" new] by (simp add: series_obs_def obs_sleep)

lemma retry_while_obs:
  assumes "retry_while E vi t ps rsp retry st = (res, st')" and "retry \<le> 3"
  shows "\<exists>new. trace st' = trace st @ new
      \<and> series_obs t ps (event_id (body rsp)) new
      \<and> paces (3 - retry) (error_message (body rsp) \<noteq> None) (pacing new) (isl res)
      \<and> (\<forall>r. res = Inr r \<longrightarrow> r = last (rsp # ctrl_responses new))"
  using assms
proof (induction E vi t ps rsp retry st arbitrary: res st' rule: retry_while.induct)
  case (1 E vi t ps rsp retry st)
  note unfold = retry_while.simps[of E vi t ps rsp retry st]
  show ?case
  proof (cases "error_message (body rsp) \<noteq> None \<and> retry < 3")
    case False
    have "retry_while E vi t ps rsp retry st = (Inr rsp, st)"
      by (subst unfold) (rule if_not_P[OF False])
    with "1.prems"(1) have r: "res = Inr rsp" "st' = st" by simp_all
    from False "1.prems"(2) have "\<not> (error_message (body rsp) \<noteq> None) \<or> 3 - retry = 0"
      by auto
    then have "paces (3 - retry) (error_message (body rsp) \<noteq> None) [] False"
      by (rule paces.finished)
    with r show ?thesis
      by (intro exI[of _ "[]"]) (simp add: pacing_def ctrl_responses_def series_nil ctrl_events_def)
  next
    case True
    define st1 where "st1 = time_sleep 2 st"
    define ev where "ev = event_id (body rsp)"
    obtain r1 s2 where c: "send_vehicle_control_command E vi t ps ev st1 = (r1, s2)"
      by (cases "send_vehicle_control_command E vi t ps ev st1")
    from svcc_obs[OF c] obtain n1 where t2: "trace s2 = trace st1 @ n1"
      and o1: "(case r1 of Inl f \<Rightarrow> ctrl_events n1 = [] \<or> attempt_obs t ps ev [] n1
                | Inr r \<Rightarrow> attempt_obs t ps ev [r] n1)" by blast
    have t1: "trace st1 = trace st @ [Time_sleep 2]" by (simp add: st1_def time_sleep_def log_event_def)
    from True obtain n where n: "3 - retry = Suc n" "3 - (retry + 1) = n" by (cases "3 - retry") auto
    from True have e: "error_message (body rsp) \<noteq> None" by simp
    have "retry_while E vi t ps rsp retry st =
       (let st1 = time_sleep 2 st; ev = event_id (body rsp)
         in case send_vehicle_control_command E vi t ps ev st1 of
              (Inl f, st2) \<Rightarrow> (Inl f, st2)
            | (Inr rsp_msg', st2) \<Rightarrow> retry_while E vi t ps rsp_msg' (retry + 1) st2)"
      by (subst unfold) (rule if_P[OF True])
    then have step: "retry_while E vi t ps rsp retry st =
       (case r1 of Inl f \<Rightarrow> (Inl f, s2) | Inr rsp' \<Rightarrow> retry_while E vi t ps rsp' (retry + 1) s2)"
      using c[unfolded st1_def ev_def] by (simp add: Let_def split: sum.splits)
    show ?thesis
    proof (cases r1)
      case (Inl f)
      with step "1.prems"(1) have r: "res = Inl f" "st' = s2" by simp_all
      from o1 Inl have d: "ctrl_events n1 = [] \<or> attempt_obs t ps ev [] n1" by simp
      then have s: "series_obs t ps ev n1"
        using series_nil series_one[of t ps ev "[]" n1] by auto
      from d have p: "pacing n1 = [] \<or> pacing n1 = [Attempt]"
        using via_nil(5)[of n1] by (auto simp: attempt_obs_def)
      have pn: "pacing (Time_sleep 2 # n1) = Delay 2 # pacing n1"
        using obs_append(5)[of "[Time_sleep 2]" n1] by (simp add: obs_sleep)
      from p e have "paces (Suc n) (error_message (body rsp) \<noteq> None) (Delay 2 # pacing n1) True"
        using paces.fault_before[of "error_message (body rsp) \<noteq> None" n]
          paces.fault_after[of "error_message (body rsp) \<noteq> None" n] by auto
      with r t1 t2 n pn s show ?thesis
        by (intro exI[of _ "Time_sleep 2 # n1"]) (simp add: ev_def series_sleep)
    next
      case (Inr r')
      with o1 have a: "attempt_obs t ps ev [r'] n1" by simp
      from step Inr "1.prems"(1) have rw: "retry_while E vi t ps r' (retry + 1) s2 = (res, st')"
        by simp
      from True have le: "retry + 1 \<le> 3" by simp
      from "1.IH"[OF True st1_def ev_def c[symmetric] Inr rw le]
      obtain n2 where t3: "trace st' = trace s2 @ n2"
        and s2: "series_obs t ps (event_id (body r')) n2"
        and p2: "paces (3 - (retry + 1)) (error_message (body r') \<noteq> None) (pacing n2) (isl res)"
        and l2: "\<forall>r. res = Inr r \<longrightarrow> r = last (r' # ctrl_responses n2)" by blast
      have s: "series_obs t ps ev (Time_sleep 2 # n1 @ n2)"
        by (rule series_sleep) (rule series_cons[OF a s2])
      from a have a': "pacing n1 = [Attempt, Answer (error_message (body r') \<noteq> None)]" "ctrl_responses n1 = [r']"
        unfolding attempt_obs_def by simp_all
      have pn: "pacing (Time_sleep 2 # n1 @ n2) = Delay 2 # Attempt # Answer (error_message (body r') \<noteq> None) # pacing n2"
        using obs_append(5)[of "[Time_sleep 2]" "n1 @ n2"] obs_append(5)[of n1 n2] a'
        by (simp add: obs_sleep)
      have rn: "ctrl_responses (Time_sleep 2 # n1 @ n2) = r' # ctrl_responses n2"
        using obs_append(4)[of "[Time_sleep 2]" "n1 @ n2"] obs_append(4)[of n1 n2] a'
        by (simp add: obs_sleep)
      have "paces (Suc n) (error_message (body rsp) \<noteq> None)
           (Delay 2 # Attempt # Answer (error_message (body r') \<noteq> None) # pacing n2) (isl res)"
        using e p2[unfolded n] by (rule paces.again)
      with t1 t2 t3 n pn rn s l2 show ?thesis
        by (intro exI[of _ "Time_sleep 2 # n1 @ n2"]) (simp add: ev_def)
    qed
  qed
qed

lemma paces_0: "paces 0 b p f \<Longrightarrow> p = [] \<and> \<not> f"
  by (erule paces.cases) simp_all

lemma paces_1:
  assumes "paces (Suc 0) b p f"
  shows "(\<not> b \<and> p = [] \<and> \<not> f)
       \<or> (b \<and> f \<and> (p = [Delay 2] \<or> p = [Delay 2, Attempt]))
       \<or> (b \<and> \<not> f \<and> (\<exists>b'. p = [Delay 2, Attempt, Answer b']))"
  using assms by (cases rule: paces.cases) (auto dest: paces_0)

lemma paces_2:
  assumes "paces (Suc (Suc 0)) b p f"
  shows "(\<not> b \<and> p = [] \<and> \<not> f)
       \<or> (b \<and> f \<and> p \<in> {[Delay 2], [Delay 2, Attempt],
                           [Delay 2, Attempt, Answer True, Delay 2],
                           [Delay 2, Attempt, Answer True, Delay 2, Attempt]})
       \<or> (b \<and> \<not> f \<and> (p = [Delay 2, Attempt, Answer False]
                      \<or> (\<exists>b'. p = [Delay 2, Attempt, Answer True, Delay 2, Attempt, Answer b'])))"
  using assms by (cases rule: paces.cases) (auto dest!: paces_1)

lemma locals_obs:
  assumes "send_vehicle_ctrl_cmd_with_retry_locals E vi t ps st = (res, st')"
  shows "\<exists>new. trace st' = trace st @ new \<and> series_obs t ps None new
     \<and> ((isl res \<and> pacing new = []) \<or> (isl res \<and> pacing new = [Attempt])
         \<or> (\<exists>b p. pacing new = Attempt # Answer b # p \<and> paces 2 b p (isl res)))
     \<and> (\<forall>r. res = Inr r \<longrightarrow> ctrl_responses new \<noteq> [] \<and> r = last (ctrl_responses new))"
proof -
  obtain r1 s1 where c: "send_vehicle_control_command E vi t ps None st = (r1, s1)"
    by (cases "send_vehicle_control_command E vi t ps None st")
  from svcc_obs[OF c] obtain n1 where t1: "trace s1 = trace st @ n1"
    and o1: "(case r1 of Inl f \<Rightarrow> ctrl_events n1 = [] \<or> attempt_obs t ps None [] n1
              | Inr r \<Rightarrow> attempt_obs t ps None [r] n1)" by blast
  show ?thesis
  proof (cases r1)
    case (Inl f)
    with c assms have r: "res = Inl f" "st' = s1"
      by (simp_all add: send_vehicle_ctrl_cmd_with_retry_locals_def)
    from o1 Inl have d: "ctrl_events n1 = [] \<or> attempt_obs t ps None [] n1" by simp
    then have s: "series_obs t ps None n1"
      using series_nil series_one[of t ps None "[]" n1] by auto
    from d have p: "pacing n1 = [] \<or> pacing n1 = [Attempt]"
      using via_nil(5)[of n1] by (auto simp: attempt_obs_def)
    with r t1 s show ?thesis by (intro exI[of _ n1]) auto
  next
    case (Inr r')
    with o1 have a: "attempt_obs t ps None [r'] n1" by simp
    from c Inr assms have rw: "retry_while E vi t ps r' 1 s1 = (res, st')"
      by (simp add: send_vehicle_ctrl_cmd_with_retry_locals_def)
    from retry_while_obs[OF rw] obtain n2 where t2: "trace st' = trace s1 @ n2"
      and s2: "series_obs t ps (event_id (body r')) n2"
      and p2: "paces (3 - 1) (error_message (body r') \<noteq> None) (pacing n2) (isl res)"
      and l2: "\<forall>r. res = Inr r \<longrightarrow> r = last (r' # ctrl_responses n2)" by auto
    from a have a': "pacing n1 = [Attempt, Answer (error_message (body r') \<noteq> None)]" "ctrl_responses n1 = [r']"
      unfolding attempt_obs_def by simp_all
    have s: "series_obs t ps None (n1 @ n2)" by (rule series_cons[OF a s2])
    have pn: "pacing (n1 @ n2) = Attempt # Answer (error_message (body r') \<noteq> None) # pacing n2"
      using obs_append(5)[of n1 n2] a' by simp
    have rn: "ctrl_responses (n1 @ n2) = r' # ctrl_responses n2"
      using obs_append(4)[of n1 n2] a' by simp
    from p2 have p2': "paces 2 (error_message (body r') \<noteq> None) (pacing n2) (isl res)" by simp
    from t1 t2 s pn rn l2 p2' show ?thesis
      by (intro exI[of _ "n1 @ n2"]) simp
  qed
qed

lemma retry_effect:
  assumes "send_vehicle_ctrl_cmd_with_retry E vi t ps st = (res, st')"
  shows "\<exists>r. send_vehicle_ctrl_cmd_with_retry_locals E vi t ps st = (r, st')
           \<and> isl r = isl res \<and> (\<forall>v. res = Inr v \<longrightarrow> v = None)"
  using assms
  by (cases "send_vehicle_ctrl_cmd_with_retry_locals E vi t ps st")
     (auto simp: send_vehicle_ctrl_cmd_with_retry_def split: sum.splits)

lemma retry_pacing_cases:
  assumes "send_vehicle_ctrl_cmd_with_retry E vi t ps st = (res, st')"
  shows "(isl res \<and> pacing (new_events st st') \<in>
            {[], [Attempt],
             [Attempt, Answer True, Delay 2],
             [Attempt, Answer True, Delay 2, Attempt],
             [Attempt, Answer True, Delay 2, Attempt, Answer True, Delay 2],
             [Attempt, Answer True, Delay 2, Attempt, Answer True, Delay 2, Attempt]})
       \<or> (res = Inr None \<and> pacing (new_events st st') \<in>
            {[Attempt, Answer False],
             [Attempt, Answer True, Delay 2, Attempt, Answer False],
             [Attempt, Answer True, Delay 2, Attempt, Answer True, Delay 2, Attempt, Answer False],
             [Attempt, Answer True, Delay 2, Attempt, Answer True, Delay 2, Attempt, Answer True]})"
proof -
  from retry_effect[OF assms] obtain r where l: "send_vehicle_ctrl_cmd_with_retry_locals E vi t ps st = (r, st')"
    and i: "isl r = isl res" and v: "\<forall>v. res = Inr v \<longrightarrow> v = None" by blast
  from locals_obs[OF l] obtain new where t: "trace st' = trace st @ new"
    and p: "(isl r \<and> pacing new = []) \<or> (isl r \<and> pacing new = [Attempt])
         \<or> (\<exists>b p. pacing new = Attempt # Answer b # p \<and> paces 2 b p (isl r))" by blast
  have n: "new_events st st' = new" by (rule new_events_append[OF t])
  from v have v': "\<not> isl res \<Longrightarrow> res = Inr None" by (cases res) auto
  from p show ?thesis
  proof (elim disjE exE conjE)
    fix b q assume q: "pacing new = Attempt # Answer b # q" and "paces 2 b q (isl r)"
    then have "paces (Suc (Suc 0)) b q (isl res)" using i by (simp add: numeral_2_eq_2)
    from paces_2[OF this] q v' show ?thesis unfolding n by auto
  qed (use i n in auto)
qed

lemma answers_in_pacing:
  "length (ctrl_responses tr) = length (filter (\<lambda>p. case p of Answer b \<Rightarrow> True | _ \<Rightarrow> False) (pacing tr))"
proof (induction tr)
  case Nil
  show ?case by (simp add: ctrl_responses_def pacing_def)
next
  case (Cons e tr)
  then show ?case by (cases e) (simp_all add: ctrl_responses_def pacing_def)
qed

lemma attempts_in_pacing:
  "length (ctrl_outgoing tr) = length (filter (\<lambda>p. p = Attempt) (pacing tr))"
proof (induction tr)
  case Nil
  show ?case by (simp add: ctrl_outgoing_def pacing_def)
next
  case (Cons e tr)
  then show ?case by (cases e) (simp_all add: ctrl_outgoing_def pacing_def)
qed

lemma sample_svcc:
  assumes "token_expiration (self st) = None"
  shows "send_vehicle_control_command (sample_env rsp k now) vi t ps ev st =
     (Inr (sample_answer (length (ctrl_responses (trace st)) < k)),
      st\<lparr>trace := trace st @ sample_exchange st vi t ps ev (length (ctrl_responses (trace st)) < k),
         self := (self st)\<lparr>cookies := Some []\<rparr>\<rparr>)"
  using assms
  by (simp add: send_vehicle_control_command_def get_token_def sample_send_request sample_env_fields Let_def
      call_initialize_message_v21_def call_encode_request_v21_def call_decode_response_v21_def log_event_def
      foldl_append_params OtaRvcReq_new_def ctrl_req_def[symmetric] sample_exchange_def map_filter_append
      ctrl_responses_def)

lemma sample_exchange_obs:
  "ctrl_responses (sample_exchange st vi t ps ev b) = [sample_answer b]"
  "pacing (sample_exchange st vi t ps ev b) = [Attempt, Answer b]"
  "ctrl_requests (sample_exchange st vi t ps ev b) = [ctrl_req t ps]"
  "map (\<lambda>m. event_id (body m)) (ctrl_outgoing (sample_exchange st vi t ps ev b)) =
     [case ev of None \<Rightarrow> Some ''0'' | Some e \<Rightarrow> Some e]"
  by (simp_all add: sample_exchange_def ctrl_responses_def pacing_def ctrl_requests_def ctrl_outgoing_def
      sample_answer_def MessageV2_def set_event_id_def Let_def split: option.splits)

lemma obs_sleep_cons:
  "ctrl_requests (Time_sleep n # xs) = ctrl_requests xs"
  "ctrl_stamped (Time_sleep n # xs) = ctrl_stamped xs"
  "ctrl_outgoing (Time_sleep n # xs) = ctrl_outgoing xs"
  "ctrl_responses (Time_sleep n # xs) = ctrl_responses xs"
  "pacing (Time_sleep n # xs) = Delay n # pacing xs"
  by (simp_all add: ctrl_requests_def ctrl_stamped_def ctrl_outgoing_def ctrl_responses_def pacing_def)

lemma sample_retry_run:
  "fst (send_vehicle_ctrl_cmd_with_retry (sample_env rsp 2 now) vi t ps (sample_run u None)) = Inr None"
  "fst (send_vehicle_ctrl_cmd_with_retry_locals (sample_env rsp 2 now) vi t ps (sample_run u None)) = Inr (sample_answer False)"
  "ctrl_responses (new_events (sample_run u None)
      (snd (send_vehicle_ctrl_cmd_with_retry (sample_env rsp 2 now) vi t ps (sample_run u None)))) =
     [sample_answer True, sample_answer True, sample_answer False]"
  "pacing (new_events (sample_run u None)
      (snd (send_vehicle_ctrl_cmd_with_retry (sample_env rsp 2 now) vi t ps (sample_run u None)))) =
     [Attempt, Answer True, Delay 2, Attempt, Answer True, Delay 2, Attempt, Answer False]"
  "ctrl_requests (new_events (sample_run u None)
      (snd (send_vehicle_ctrl_cmd_with_retry (sample_env rsp 2 now) vi t ps (sample_run u None)))) =
     [ctrl_req t ps, ctrl_req t ps, ctrl_req t ps]"
  "map (\<lambda>m. event_id (body m)) (ctrl_outgoing (new_events (sample_run u None)
      (snd (send_vehicle_ctrl_cmd_with_retry (sample_env rsp 2 now) vi t ps (sample_run u None))))) =
     [Some ''0'', Some ''e7'', Some ''e7'']"
  by (simp_all add: send_vehicle_ctrl_cmd_with_retry_def send_vehicle_ctrl_cmd_with_retry_locals_def
      sample_svcc retry_while.simps sample_run_def SaicApi_init_def time_sleep_def log_event_def
      obs_append obs_sleep obs_sleep_cons sample_exchange_obs new_events_def sample_answer_def MessageV2_def
      ctrl_responses_def[of "[]"] pacing_def[of "[]"] ctrl_requests_def[of "[]"] ctrl_outgoing_def[of "[]"])

lemma silent_svcc:
  assumes "token_expiration (self st) = None"
  shows "send_vehicle_control_command silent_env vi t ps ev st =
     (Inr silent_answer,
      st\<lparr>trace := trace st @ silent_exchange st vi t ps ev, self := (self st)\<lparr>cookies := Some []\<rparr>\<rparr>)"
  using assms
  by (simp add: send_vehicle_control_command_def get_token_def send_request_def raise_for_status_def
      silent_env_def sample_env_fields Let_def
      call_initialize_message_v21_def call_encode_request_v21_def call_decode_response_v21_def log_event_def
      foldl_append_params OtaRvcReq_new_def ctrl_req_def[symmetric] sample_exchange_def silent_exchange_def)

lemma silent_exchange_obs:
  "map (\<lambda>r. event_id (body r)) (ctrl_responses (silent_exchange st vi t ps ev)) = [None]"
  "map (\<lambda>m. event_id (body m)) (ctrl_outgoing (silent_exchange st vi t ps ev)) =
     [case ev of None \<Rightarrow> Some ''0'' | Some e \<Rightarrow> Some e]"
  by (simp_all add: silent_exchange_def sample_exchange_def ctrl_responses_def ctrl_outgoing_def
      silent_answer_def MessageV2_def MessageBody_new_def set_event_id_def Let_def split: option.splits)

lemma silent_retry_run:
  "map (\<lambda>r. event_id (body r)) (ctrl_responses (new_events (sample_run u None)
      (snd (send_vehicle_ctrl_cmd_with_retry silent_env vi t ps (sample_run u None))))) = [None, None, None]"
  "map (\<lambda>m. event_id (body m)) (ctrl_outgoing (new_events (sample_run u None)
      (snd (send_vehicle_ctrl_cmd_with_retry silent_env vi t ps (sample_run u None))))) =
     [Some ''0'', Some ''0'', Some ''0'']"
  by (simp_all add: send_vehicle_ctrl_cmd_with_retry_def send_vehicle_ctrl_cmd_with_retry_locals_def
      silent_svcc retry_while.simps sample_run_def SaicApi_init_def time_sleep_def log_event_def
      obs_append obs_sleep obs_sleep_cons silent_exchange_obs new_events_def silent_answer_def MessageV2_def
      MessageBody_new_def ctrl_responses_def[of "[]"] ctrl_outgoing_def[of "[]"])






text \<open>
  Claim C5. In one invocation of the retry coordinator at most three attempts are made.
  The attempts, the answers (\<open>Answer True\<close> carries an error payload) and the delays of
  the invocation form, in this order, one of the listed sequences: a further attempt
  follows only an answer with an error payload, so after an error-free first answer there
  is no second attempt, and two consecutive attempts are separated by exactly one delay of
  2 seconds. The first group are the runs cut short by an exception of the transport or of
  a re-login, the second group the runs that return.
\<close>

theorem retry_attempts_and_delays:
  assumes "send_vehicle_ctrl_cmd_with_retry E vi t ps st = (res, st')"
  shows "length (ctrl_outgoing (new_events st st')) \<le> 3
       \<and> ((isl res \<and> pacing (new_events st st') \<in>
            {[], [Attempt],
             [Attempt, Answer True, Delay 2],
             [Attempt, Answer True, Delay 2, Attempt],
             [Attempt, Answer True, Delay 2, Attempt, Answer True, Delay 2],
             [Attempt, Answer True, Delay 2, Attempt, Answer True, Delay 2, Attempt]})
        \<or> (res = Inr None \<and> pacing (new_events st st') \<in>
            {[Attempt, Answer False],
             [Attempt, Answer True, Delay 2, Attempt, Answer False],
             [Attempt, Answer True, Delay 2, Attempt, Answer True, Delay 2, Attempt, Answer False],
             [Attempt, Answer True, Delay 2, Attempt, Answer True, Delay 2, Attempt, Answer True]}))"
proof -
  note c = retry_pacing_cases[OF assms]
  from c have "length (filter (\<lambda>p. p = Attempt) (pacing (new_events st st'))) \<le> 3"
    by (elim disjE conjE) auto
  then have "length (ctrl_outgoing (new_events st st')) \<le> 3"
    by (simp add: attempts_in_pacing)
  with c show ?thesis by blast
qed

theorem retry_attempts_and_delays_witness:
  "fst (send_vehicle_ctrl_cmd_with_retry (sample_env (login_ok None) 2 0) sample_vin [1] []
          (sample_run ''abc'' None)) = Inr None
   \<and> pacing (new_events (sample_run ''abc'' None)
        (snd (send_vehicle_ctrl_cmd_with_retry (sample_env (login_ok None) 2 0) sample_vin [1] []
          (sample_run ''abc'' None)))) =
       [Attempt, Answer True, Delay 2, Attempt, Answer True, Delay 2, Attempt, Answer False]
   \<and> length (ctrl_outgoing (new_events (sample_run ''abc'' None)
        (snd (send_vehicle_ctrl_cmd_with_retry (sample_env (login_ok None) 2 0) sample_vin [1] []
          (sample_run ''abc'' None))))) \<le> 3"
  using retry_attempts_and_delays[of "sample_env (login_ok None) 2 0" sample_vin "[1]" "[]"
      "sample_run ''abc'' None"
      "fst (send_vehicle_ctrl_cmd_with_retry (sample_env (login_ok None) 2 0) sample_vin [1] []
          (sample_run ''abc'' None))"
      "snd (send_vehicle_ctrl_cmd_with_retry (sample_env (login_ok None) 2 0) sample_vin [1] []
          (sample_run ''abc'' None))", OF prod.collapse[symmetric]]
    sample_retry_run(1,4)[where rsp="login_ok None" and now=0 and vi=sample_vin and t="[1]" and ps="[]" and u="''abc''"]
  by simp

text \<open>
  Claim C6, as the code has it. The outgoing message of each attempt is the message as
  stamped by \<open>initialize_message\<close> with the event id of the preceding response attached:
  nothing is attached on the first attempt; on a later attempt, when the body of the
  immediately preceding decoded response carries an event id, the body event id of the
  outgoing message equals it, and when that response carries none, the outgoing message is
  the stamped message unchanged (the \<open>i\<close>-th response precedes attempt \<open>i + 1\<close>, counting
  from 0).
\<close>

theorem retry_event_id_propagation:
  assumes "send_vehicle_ctrl_cmd_with_retry E vi t ps st = (res, st')"
  shows "ctrl_outgoing (new_events st st') =
           map2 set_event_id (None # map (\<lambda>r. event_id (body r)) (ctrl_responses (new_events st st')))
             (ctrl_stamped (new_events st st'))
       \<and> length (ctrl_outgoing (new_events st st')) = length (ctrl_stamped (new_events st st'))
       \<and> (ctrl_outgoing (new_events st st') \<noteq> [] \<longrightarrow>
            hd (ctrl_outgoing (new_events st st')) = hd (ctrl_stamped (new_events st st')))
       \<and> (\<forall>i e. Suc i < length (ctrl_outgoing (new_events st st')) \<longrightarrow>
              event_id (body (ctrl_responses (new_events st st') ! i)) = Some e \<longrightarrow>
              event_id (body (ctrl_outgoing (new_events st st') ! Suc i)) = Some e)
       \<and> (\<forall>i. Suc i < length (ctrl_outgoing (new_events st st')) \<longrightarrow>
              event_id (body (ctrl_responses (new_events st st') ! i)) = None \<longrightarrow>
              ctrl_outgoing (new_events st st') ! Suc i = ctrl_stamped (new_events st st') ! Suc i)"
proof -
  from retry_effect[OF assms] obtain r where l: "send_vehicle_ctrl_cmd_with_retry_locals E vi t ps st = (r, st')"
    by blast
  from locals_obs[OF l] obtain new where t: "trace st' = trace st @ new"
    and s: "series_obs t ps None new" by blast
  have n: "new_events st st' = new" by (rule new_events_append[OF t])
  define os where "os = ctrl_outgoing new"
  define rs where "rs = ctrl_responses new"
  define ms where "ms = ctrl_stamped new"
  from s have o: "os = map2 set_event_id (None # map (\<lambda>r. event_id (body r)) rs) ms"
    and l1: "length rs \<le> length ms" and l2: "length ms \<le> Suc (length rs)"
    unfolding series_obs_def os_def rs_def ms_def by blast+
  from o l2 have len: "length os = length ms" by simp
  have first: "hd os = hd ms" if "os \<noteq> []"
  proof -
    from that len obtain m ms' where "ms = m # ms'" by (cases ms) auto
    with o show ?thesis by (simp add: set_event_id_def)
  qed
  have nth: "os ! Suc i = set_event_id (event_id (body (rs ! i))) (ms ! Suc i)"
    if "Suc i < length os" for i
  proof -
    from that len l2 have i: "i < length rs" "Suc i < length ms" by simp_all
    with o show ?thesis by simp
  qed
  have later: "event_id (body (os ! Suc i)) = Some e"
    if "Suc i < length os" and "event_id (body (rs ! i)) = Some e" for i e
    using nth[OF that(1)] that(2) by (simp add: set_event_id_def)
  have kept: "os ! Suc i = ms ! Suc i"
    if "Suc i < length os" and "event_id (body (rs ! i)) = None" for i
    using nth[OF that(1)] that(2) by (simp add: set_event_id_def)
  from o len first later kept show ?thesis unfolding n os_def rs_def ms_def by blast
qed

theorem retry_event_id_propagation_witness:
  "map (\<lambda>m. event_id (body m)) (ctrl_outgoing (new_events (sample_run ''abc'' None)
        (snd (send_vehicle_ctrl_cmd_with_retry (sample_env (login_ok None) 2 0) sample_vin [1] []
          (sample_run ''abc'' None))))) = [Some ''0'', Some ''e7'', Some ''e7'']
   \<and> event_id (body (ctrl_responses (new_events (sample_run ''abc'' None)
        (snd (send_vehicle_ctrl_cmd_with_retry (sample_env (login_ok None) 2 0) sample_vin [1] []
          (sample_run ''abc'' None)))) ! 0)) = Some ''e7''
   \<and> event_id (body (ctrl_outgoing (new_events (sample_run ''abc'' None)
        (snd (send_vehicle_ctrl_cmd_with_retry (sample_env (login_ok None) 2 0) sample_vin [1] []
          (sample_run ''abc'' None)))) ! Suc 0)) = Some ''e7''"
proof -
  let ?N = "new_events (sample_run ''abc'' None)
        (snd (send_vehicle_ctrl_cmd_with_retry (sample_env (login_ok None) 2 0) sample_vin [1] []
          (sample_run ''abc'' None)))"
  note s = sample_retry_run(3,6)[where rsp="login_ok None" and now=0 and vi=sample_vin and t="[1]" and ps="[]" and u="''abc''"]
  from s(2) have "length (map (\<lambda>m. event_id (body m)) (ctrl_outgoing ?N)) = 3" by simp
  then have len: "Suc 0 < length (ctrl_outgoing ?N)" by simp
  from s(1) have r0: "event_id (body (ctrl_responses ?N ! 0)) = Some ''e7''"
    by (simp add: sample_answer_def MessageV2_def)
  note p = retry_event_id_propagation[of "sample_env (login_ok None) 2 0" sample_vin "[1]" "[]"
      "sample_run ''abc'' None"
      "fst (send_vehicle_ctrl_cmd_with_retry (sample_env (login_ok None) 2 0) sample_vin [1] []
          (sample_run ''abc'' None))"
      "snd (send_vehicle_ctrl_cmd_with_retry (sample_env (login_ok None) 2 0) sample_vin [1] []
          (sample_run ''abc'' None))", OF prod.collapse[symmetric]]
  have "event_id (body (ctrl_outgoing ?N ! Suc 0)) = Some ''e7''"
    by (rule p[THEN conjunct2, THEN conjunct2, THEN conjunct2, THEN conjunct1, rule_format, OF len r0])
  with s(2) r0 show ?thesis by simp
qed

text \<open>
  Claim C6 as stated fails: when the responses carry no event id, the second and third
  attempts go out with the event id stamped by \<open>initialize_message\<close> (here \<open>0\<close>), which is
  not the (absent) event id of the preceding response.
\<close>

theorem retry_without_event_id_counterexample:
  "map (\<lambda>r. event_id (body r)) (ctrl_responses (new_events (sample_run ''abc'' None)
      (snd (send_vehicle_ctrl_cmd_with_retry silent_env sample_vin [1] [] (sample_run ''abc'' None))))) =
     [None, None, None]
   \<and> map (\<lambda>m. event_id (body m)) (ctrl_outgoing (new_events (sample_run ''abc'' None)
      (snd (send_vehicle_ctrl_cmd_with_retry silent_env sample_vin [1] [] (sample_run ''abc'' None))))) =
     [Some ''0'', Some ''0'', Some ''0'']
   \<and> Some ''0'' \<noteq> (None :: string option)"
  using silent_retry_run[of "''abc''" sample_vin "[1]" "[]"] by simp

text \<open>
  Claim C1, as the code has it. The retry coordinator has no \<open>return\<close> statement: when it
  returns, the caller receives \<open>None\<close>, and the last decoded control-command response is
  only what its local variable holds at that moment. It does not raise because an error
  payload persists: once three responses have been decoded it returns, whatever the third
  response carries; in particular, when the 1st and 2nd responses carry error payloads
  and the 3rd does not, the coordinator ends holding that 3rd response and returns \<open>None\<close>.
\<close>

theorem retry_discards_response:
  assumes "send_vehicle_ctrl_cmd_with_retry E vi t ps st = (res, st')"
  shows "(\<forall>v. res = Inr v \<longrightarrow>
            v = None \<and> ctrl_responses (new_events st st') \<noteq> [] \<and>
            send_vehicle_ctrl_cmd_with_retry_locals E vi t ps st =
              (Inr (last (ctrl_responses (new_events st st'))), st'))
       \<and> (length (ctrl_responses (new_events st st')) = 3 \<longrightarrow> res = Inr None)"
proof -
  from retry_effect[OF assms] obtain r where l: "send_vehicle_ctrl_cmd_with_retry_locals E vi t ps st = (r, st')"
    and i: "isl r = isl res" and v: "\<forall>v. res = Inr v \<longrightarrow> v = None" by blast
  from locals_obs[OF l] obtain new where t: "trace st' = trace st @ new"
    and la: "\<forall>x. r = Inr x \<longrightarrow> ctrl_responses new \<noteq> [] \<and> x = last (ctrl_responses new)" by blast
  have n: "new_events st st' = new" by (rule new_events_append[OF t])
  have a: "v = None \<and> ctrl_responses new \<noteq> [] \<and>
            send_vehicle_ctrl_cmd_with_retry_locals E vi t ps st = (Inr (last (ctrl_responses new)), st')"
    if "res = Inr v" for v
  proof -
    from that i obtain x where "r = Inr x" by (cases r) auto
    with la l v that show ?thesis by simp
  qed
  have b: "res = Inr None" if "length (ctrl_responses new) = 3"
  proof -
    from that have "length (filter (\<lambda>p. case p of Answer b \<Rightarrow> True | _ \<Rightarrow> False) (pacing new)) = 3"
      by (simp add: answers_in_pacing)
    with retry_pacing_cases[OF assms] show ?thesis unfolding n
      by (elim disjE conjE) auto
  qed
  from a b show ?thesis unfolding n by blast
qed

theorem retry_discards_response_witness:
  "fst (send_vehicle_ctrl_cmd_with_retry (sample_env (login_ok None) 2 0) sample_vin [1] []
          (sample_run ''abc'' None)) = Inr None
   \<and> length (ctrl_responses (new_events (sample_run ''abc'' None)
        (snd (send_vehicle_ctrl_cmd_with_retry (sample_env (login_ok None) 2 0) sample_vin [1] []
          (sample_run ''abc'' None))))) = 3
   \<and> send_vehicle_ctrl_cmd_with_retry_locals (sample_env (login_ok None) 2 0) sample_vin [1] []
          (sample_run ''abc'' None) =
       (Inr (sample_answer False),
        snd (send_vehicle_ctrl_cmd_with_retry (sample_env (login_ok None) 2 0) sample_vin [1] []
          (sample_run ''abc'' None)))"
  using retry_discards_response[of "sample_env (login_ok None) 2 0" sample_vin "[1]" "[]"
      "sample_run ''abc'' None"
      "fst (send_vehicle_ctrl_cmd_with_retry (sample_env (login_ok None) 2 0) sample_vin [1] []
          (sample_run ''abc'' None))"
      "snd (send_vehicle_ctrl_cmd_with_retry (sample_env (login_ok None) 2 0) sample_vin [1] []
          (sample_run ''abc'' None))", OF prod.collapse[symmetric]]
    sample_retry_run(1,3)[where rsp="login_ok None" and now=0 and vi=sample_vin and t="[1]" and ps="[]" and u="''abc''"]
  by simp

text \<open>
  Claim C1 as stated fails: with two responses that carry an error payload followed by
  one that does not, the value returned to the caller is \<open>None\<close>, not the third response.
\<close>

theorem retry_returns_none_counterexample:
  "ctrl_responses (new_events (sample_run ''abc'' None)
        (snd (send_vehicle_ctrl_cmd_with_retry (sample_env (login_ok None) 2 0) sample_vin [1] []
          (sample_run ''abc'' None)))) = [sample_answer True, sample_answer True, sample_answer False]
   \<and> error_message (body (sample_answer True)) \<noteq> None
   \<and> error_message (body (sample_answer False)) = None
   \<and> fst (send_vehicle_ctrl_cmd_with_retry (sample_env (login_ok None) 2 0) sample_vin [1] []
          (sample_run ''abc'' None)) = Inr None
   \<and> fst (send_vehicle_ctrl_cmd_with_retry (sample_env (login_ok None) 2 0) sample_vin [1] []
          (sample_run ''abc'' None)) \<noteq> Inr (Some (sample_answer False))"
  using sample_retry_run(1,3)[where rsp="login_ok None" and now=0 and vi=sample_vin and t="[1]" and ps="[]" and u="''abc''"]
  by (simp add: sample_answer_def MessageV2_def)




end
